theory Spec2Isabelle
  imports Complex_Main
begin

unbundle bit_operations_syntax

section \<open>Colour labels of dh_segment_torch: data model\<close>

text \<open>
  The development follows \<^verbatim>\<open>dh_segment_torch/data/color_labels.py\<close>. Every
  \<^verbatim>\<open>raise\<close> of the source is a result \<open>Inl e\<close>; a returned value is \<open>Inr v\<close>.
\<close>

datatype error =
  ValueError | FileNotFoundError | IndexError | AttributeError | AssertionError | TypeError

text \<open>
  A colour is a tuple of three Python integers (the annotation
  \<^verbatim>\<open>Tuple[int, int, int]\<close>): this is what the colour parser and the colour mixer
  return, and what a set of colours holds.
\<close>

type_synonym color = "int \<times> int \<times> int"

text \<open>
  The colours a mapping stores are Python values: tuples when a constructor built them,
  lists of integers when they were read from a JSON file (\<^verbatim>\<open>json.load\<close> returns a JSON
  array as a list, and nothing converts it). A tuple and a list are never equal in Python,
  and a list cannot be hashed, so the two are kept apart.
\<close>

datatype pycolor = TupleColor color | ListColor "int list"

fun channels :: "pycolor \<Rightarrow> int list" where
  "channels (TupleColor (r, g, b)) = [r, g, b]"
| "channels (ListColor xs) = xs"

fun is_tuple :: "pycolor \<Rightarrow> bool" where
  "is_tuple (TupleColor c) = True"
| "is_tuple (ListColor xs) = False"

text \<open>
  An entry of a one-hot vector is a Python or NumPy integer, or a float. A finite float is
  a rational number and is kept by its exact value; NaN and the infinities are not
  represented.
\<close>

datatype pynum = IntV int | FloatV rat

fun num_val :: "pynum \<Rightarrow> rat" where
  "num_val (IntV i) = of_int i"
| "num_val (FloatV q) = q"

text \<open>Python's \<^verbatim>\<open>==\<close> on numbers compares values: \<^verbatim>\<open>1 == 1.0\<close>.\<close>

definition num_eq :: "pynum \<Rightarrow> pynum \<Rightarrow> bool" where
  "num_eq a b = (num_val a = num_val b)"

definition one_hot_eq :: "pynum list list option \<Rightarrow> pynum list list option \<Rightarrow> bool" where
  "one_hot_eq a b = rel_option (list_all2 (list_all2 num_eq)) a b"

record ColorLabels =
  colors :: "pycolor list"
  one_hot_encoding :: "pynum list list option"
  labels :: "string list option"
  log_labels :: "string list option"

text \<open>
  Truth value of an optional list in a condition (\<^verbatim>\<open>if one_hot_encoding:\<close>,
  \<^verbatim>\<open>if labels:\<close>): \<^verbatim>\<open>None\<close> and the empty list are both false.
\<close>

fun truthy :: "'a list option \<Rightarrow> bool" where
  "truthy None = False"
| "truthy (Some xs) = (xs \<noteq> [])"

definition multilabel :: "ColorLabels \<Rightarrow> bool" where
  "multilabel self = (one_hot_encoding self \<noteq> None)"

definition num_classes :: "ColorLabels \<Rightarrow> nat" where
  "num_classes self =
     (case one_hot_encoding self of
        Some (row # rows) \<Rightarrow> length row
      | _ \<Rightarrow> length (colors self))"

section \<open>The constructor\<close>

text \<open>
  \<^verbatim>\<open>np.array(one_hot_encoding)\<close> in \<^verbatim>\<open>_check_empty_labels_one_hot\<close> needs rows of
  one length: NumPy (1.24 and later) raises \<^verbatim>\<open>ValueError\<close> on rows of different
  lengths.
\<close>

definition rectangular :: "'a list list \<Rightarrow> bool" where
  "rectangular rows = (\<forall>r \<in> set rows. length r = length (hd rows))"

text \<open>
  \<^verbatim>\<open>_check_empty_labels_one_hot\<close>: the columns whose sum over all rows is zero
  (\<^verbatim>\<open>np.where(num_occ_per_label == 0)\<close>). When there are labels, the method reads
  \<^verbatim>\<open>self.labels[idx]\<close> for each such column, which raises \<^verbatim>\<open>IndexError\<close> for a column
  past the end of the labels. The warning it then logs is not part of the model. The sum is
  computed exactly; for entries that are not negative it is zero exactly when every entry
  of the column is zero.
\<close>

definition empty_labels_indices :: "pynum list list \<Rightarrow> nat list" where
  "empty_labels_indices rows =
     filter (\<lambda>j. (\<Sum>row\<leftarrow>rows. num_val (row ! j)) = 0) [0 ..< length (hd rows)]"

fun join_plus :: "string list \<Rightarrow> string" where
  "join_plus [] = []"
| "join_plus [x] = x"
| "join_plus (x # y # ys) = x @ ''+'' @ join_plus (y # ys)"

text \<open>
  One display name per one-hot row: \<^verbatim>\<open>"+".join(np.array(labels)[line])\<close> with
  \<^verbatim>\<open>line\<close> the row as booleans (an entry is true when it is not zero). The
  constructor reaches this only when every row has as many entries as there are labels.
\<close>

definition new_names :: "string list \<Rightarrow> pynum list list \<Rightarrow> string list" where
  "new_names ls rows =
     map (\<lambda>line. join_plus (map fst (filter (\<lambda>(l, v). num_val v \<noteq> 0) (zip ls line)))) rows"

definition ColorLabels_init ::
  "pycolor list \<Rightarrow> pynum list list option \<Rightarrow> string list option \<Rightarrow> error + ColorLabels" where
  "ColorLabels_init cs ohe ls =
     (let self = \<lparr>colors = cs, one_hot_encoding = ohe, labels = ls, log_labels = None\<rparr> in
      if truthy ohe \<and> length cs \<noteq> length (the ohe) then Inl ValueError
      else if truthy ohe \<and> \<not> rectangular (the ohe) then Inl ValueError
      else if truthy ohe \<and> truthy ls
              \<and> (\<exists>idx \<in> set (empty_labels_indices (the ohe)). length (the ls) \<le> idx)
        then Inl IndexError
      else if truthy ls then
        (if num_classes self \<noteq> length (the ls) then Inl ValueError
         else if truthy ohe then
           (let names = (new_names (the ls) (the ohe))[0 := ''background''] in
            if length names = length cs then Inr (self\<lparr>log_labels := Some names\<rparr>)
            else Inl AssertionError)
         else
           (if length (the ls) = length cs then Inr (self\<lparr>log_labels := ls\<rparr>)
            else Inl AssertionError))
      else Inr self)"

section \<open>Filtering by colour\<close>

text \<open>
  The loop of \<^verbatim>\<open>from_filter_by_colors\<close> over \<^verbatim>\<open>enumerate(color_labels.colors)\<close>; the
  accumulator holds \<^verbatim>\<open>new_colors\<close>, \<^verbatim>\<open>new_one_hot_encoding\<close> and \<^verbatim>\<open>new_labels\<close>.
  \<^verbatim>\<open>color in colors\<close> looks the colour up in a set, which hashes it: for a list colour
  Python raises \<^verbatim>\<open>TypeError\<close> (unhashable type). Reading a list past its end raises
  \<^verbatim>\<open>IndexError\<close>.
\<close>

type_synonym filter_acc = "pycolor list \<times> pynum list list option \<times> string list option"

fun append_opt :: "'a list option \<Rightarrow> 'a \<Rightarrow> 'a list option" where
  "append_opt None x = Some [x]"
| "append_opt (Some xs) x = Some (xs @ [x])"

fun filter_loop ::
  "ColorLabels \<Rightarrow> color set \<Rightarrow> (nat \<times> pycolor) list \<Rightarrow> filter_acc \<Rightarrow> error + filter_acc" where
  "filter_loop color_labels S [] acc = Inr acc"
| "filter_loop color_labels S ((index, ListColor xs) # rest) acc = Inl TypeError"
| "filter_loop color_labels S ((index, TupleColor c) # rest) (new_colors, new_ohe, new_labels) =
     (if c \<in> S then
        (if truthy (one_hot_encoding color_labels) then
           (if index < length (the (one_hot_encoding color_labels)) then
              filter_loop color_labels S rest
                (new_colors @ [TupleColor c],
                 append_opt new_ohe (the (one_hot_encoding color_labels) ! index),
                 new_labels)
            else Inl IndexError)
         else if truthy (labels color_labels) then
           (if index < length (the (labels color_labels)) then
              filter_loop color_labels S rest
                (new_colors @ [TupleColor c], new_ohe,
                 append_opt new_labels (the (labels color_labels) ! index))
            else Inl IndexError)
         else filter_loop color_labels S rest (new_colors @ [TupleColor c], new_ohe, new_labels))
      else filter_loop color_labels S rest (new_colors, new_ohe, new_labels))"

definition from_filter_by_colors :: "ColorLabels \<Rightarrow> color set \<Rightarrow> error + ColorLabels" where
  "from_filter_by_colors color_labels S =
     (case filter_loop color_labels S
             (zip [0 ..< length (colors color_labels)] (colors color_labels)) ([], None, None) of
        Inl e \<Rightarrow> Inl e
      | Inr (new_colors, new_ohe, new_labels) \<Rightarrow>
          ColorLabels_init new_colors new_ohe
            (if truthy (one_hot_encoding color_labels) then labels color_labels
             else new_labels))"

section \<open>JSON files\<close>

text \<open>
  The content of a label file: the object \<^verbatim>\<open>json.dump\<close> writes and \<^verbatim>\<open>json.load\<close>
  reads back, with \<^verbatim>\<open>null\<close> as \<open>None\<close>; a colour in it is a JSON array of integers.
  The file system is a map from paths to contents.
\<close>

record label_file =
  json_colors :: "int list list"
  json_one_hot_encoding :: "pynum list list option"
  json_labels :: "string list option"

type_synonym files = "string \<rightharpoonup> label_file"

text \<open>
  \<^verbatim>\<open>np.int32(x)\<close> on one value: a float is truncated towards zero, and the integer is
  cut to 32 bits (two's complement, as a C cast does; the properties below apply it to
  values within the range only). On a table \<^verbatim>\<open>np.int32\<close> needs rows of one length and
  raises \<^verbatim>\<open>ValueError\<close> otherwise; this holds for the colours (tuples and lists alike
  become rows of the array, and \<^verbatim>\<open>tolist\<close> returns them as lists) and for the one-hot
  table. \<^verbatim>\<open>to_json\<close> builds the object before it opens the file, so a failure leaves
  the file system as it was.
\<close>

definition int32 :: "int \<Rightarrow> int" where
  "int32 i = signed_take_bit 31 i"

definition trunc :: "rat \<Rightarrow> int" where
  "trunc q = (if q < 0 then \<lceil>q\<rceil> else \<lfloor>q\<rfloor>)"

fun np_int32 :: "pynum \<Rightarrow> int" where
  "np_int32 (IntV i) = int32 i"
| "np_int32 (FloatV q) = int32 (trunc q)"

definition to_json :: "ColorLabels \<Rightarrow> string \<Rightarrow> files \<Rightarrow> error + files" where
  "to_json self path fs =
     (if \<not> rectangular (map channels (colors self)) then Inl ValueError
      else if truthy (one_hot_encoding self) \<and> \<not> rectangular (the (one_hot_encoding self))
      then Inl ValueError
      else Inr (fs(path \<mapsto>
        \<lparr>json_colors = map (\<lambda>c. map int32 (channels c)) (colors self),
         json_one_hot_encoding =
           (if truthy (one_hot_encoding self)
            then Some (map (map (\<lambda>v. IntV (np_int32 v))) (the (one_hot_encoding self)))
            else None),
         json_labels = labels self\<rparr>)))"

definition from_labels_json_file :: "files \<Rightarrow> string \<Rightarrow> error + ColorLabels" where
  "from_labels_json_file fs label_json_file =
     (case fs label_json_file of
        None \<Rightarrow> Inl FileNotFoundError
      | Some kwargs \<Rightarrow>
          ColorLabels_init (map ListColor (json_colors kwargs)) (json_one_hot_encoding kwargs)
            (json_labels kwargs))"

section \<open>Parsing a one-hot vector\<close>

text \<open>
  The argument of \<^verbatim>\<open>parse_validate_one_hot\<close>: a string, a sized sequence of numbers
  and strings, or something else (neither \<^verbatim>\<open>str\<close> nor \<^verbatim>\<open>Sized\<close>).
\<close>

datatype elem = NumE pynum | StrE string

datatype one_hot_input = OneHotStr string | OneHotSeq "elem list" | OneHotOther

text \<open>
  \<^verbatim>\<open>np.array(one_hot).astype(np.float32)\<close> converts every element to a float of 32
  bits, or raises \<^verbatim>\<open>ValueError\<close> when an element is not the text of a number. NumPy's
  conversion of one element is a parameter \<open>f32\<close> of the model: \<open>f32 e = None\<close>
  when NumPy refuses \<open>e\<close>. A string is first split into its characters.
\<close>

fun one_hot_elems :: "one_hot_input \<Rightarrow> elem list option" where
  "one_hot_elems (OneHotStr s) = Some (map (\<lambda>x. StrE [x]) s)"
| "one_hot_elems (OneHotSeq es) = Some es"
| "one_hot_elems OneHotOther = None"

fun those_list :: "'a option list \<Rightarrow> 'a list option" where
  "those_list [] = Some []"
| "those_list (None # xs) = None"
| "those_list (Some x # xs) = (case those_list xs of None \<Rightarrow> None | Some ys \<Rightarrow> Some (x # ys))"

definition astype_float32 :: "(elem \<Rightarrow> rat option) \<Rightarrow> one_hot_input \<Rightarrow> rat list option" where
  "astype_float32 f32 one_hot =
     (case one_hot_elems one_hot of
        None \<Rightarrow> None
      | Some es \<Rightarrow> those_list (map f32 es))"

text \<open>
  Modelled from the spec: \<^verbatim>\<open>is_int_array\<close> is imported from
  \<^verbatim>\<open>dh_segment_torch.utils.ops\<close>, which is not among the sources. The spec:
  "given a numeric vector, reports whether all values are integral".
\<close>

definition is_int_array :: "rat list \<Rightarrow> bool" where
  "is_int_array vs = list_all (\<lambda>v. of_int \<lfloor>v\<rfloor> = v) vs"

definition parse_validate_one_hot ::
  "(elem \<Rightarrow> rat option) \<Rightarrow> one_hot_input \<Rightarrow> error + pynum list" where
  "parse_validate_one_hot f32 one_hot =
     (case one_hot_elems one_hot of
        None \<Rightarrow> Inl ValueError
      | Some es \<Rightarrow>
          (case those_list (map f32 es) of
             None \<Rightarrow> Inl ValueError
           | Some vs \<Rightarrow>
               if is_int_array vs then
                 (if list_ex (\<lambda>v. v \<noteq> 0 \<and> v \<noteq> 1) vs then Inl ValueError
                  else Inr (map (\<lambda>v. IntV (np_int32 (FloatV v))) vs))
               else
                 (if list_ex (\<lambda>v. v < 0 \<or> v > 1) vs then Inl ValueError
                  else Inr (map FloatV vs))))"

section \<open>Construction from a list of records\<close>

text \<open>
  A colour specification is a string or a tuple of three integers. The parser
  \<^verbatim>\<open>parse_and_validate_color\<close> is imported from \<^verbatim>\<open>dh_segment_torch.data.utils\<close>,
  which is not among the sources; the constructors below take it as a parameter
  \<open>pvc\<close>, with \<open>pvc c = None\<close> when it raises \<^verbatim>\<open>ValueError\<close>.
\<close>

datatype color_spec = ColorStr string | ColorTuple int int int

text \<open>
  One record of the list: a dictionary with the optional keys \<^verbatim>\<open>"color"\<close>,
  \<^verbatim>\<open>"one_hot"\<close> and \<^verbatim>\<open>"label"\<close>; a key that is absent is \<open>None\<close>.
\<close>

record color_label =
  color_key :: "color_spec option"
  one_hot_key :: "one_hot_input option"
  label_key :: "string option"

text \<open>The local variables of \<^verbatim>\<open>from_list_of_color_labels\<close>.\<close>

record locals =
  l_colors :: "color list"
  l_one_hot_encoding :: "pynum list list option"
  l_labels :: "string list option"
  has_one_hot :: "bool option"
  has_labels :: "bool option"
  one_hot_size :: "nat option"

text \<open>
  The three parts of the loop body. \<^verbatim>\<open>if not has_one_hot\<close> is reached with
  \<^verbatim>\<open>has_one_hot\<close> either \<^verbatim>\<open>True\<close> or \<^verbatim>\<open>False\<close>. Appending to a variable that
  holds \<^verbatim>\<open>None\<close> raises \<^verbatim>\<open>AttributeError\<close>.
\<close>

definition one_hot_part ::
  "(elem \<Rightarrow> rat option) \<Rightarrow> locals \<Rightarrow> color_label \<Rightarrow> error + locals" where
  "one_hot_part f32 st label =
     (case one_hot_key label of
        None \<Rightarrow> Inr (st\<lparr>has_one_hot := Some False\<rparr>)
      | Some v \<Rightarrow>
          (let st1 = (if has_one_hot st = None
                      then st\<lparr>has_one_hot := Some True, l_one_hot_encoding := Some []\<rparr>
                      else st)
           in case parse_validate_one_hot f32 v of
                Inl e \<Rightarrow> Inl e
              | Inr one_hot \<Rightarrow>
                  (let st2 = (if one_hot_size st1 = None
                              then st1\<lparr>one_hot_size := Some (length one_hot)\<rparr>
                              else st1)
                   in if has_one_hot st2 \<noteq> Some True then Inl ValueError
                      else if one_hot_size st2 \<noteq> Some (length one_hot) then Inl ValueError
                      else (case l_one_hot_encoding st2 of
                              None \<Rightarrow> Inl AttributeError
                            | Some rows \<Rightarrow>
                                Inr (st2\<lparr>l_one_hot_encoding := Some (rows @ [one_hot])\<rparr>)))))"

definition label_part :: "locals \<Rightarrow> color_label \<Rightarrow> error + locals" where
  "label_part st label =
     (case label_key label of
        None \<Rightarrow> Inr (st\<lparr>has_labels := Some False\<rparr>)
      | Some name \<Rightarrow>
          (let st1 = (if has_labels st = None
                      then st\<lparr>has_labels := Some True, l_labels := Some []\<rparr>
                      else st)
           in if has_labels st1 \<noteq> Some True then Inl ValueError
              else (case l_labels st1 of
                      None \<Rightarrow> Inl AttributeError
                    | Some ls \<Rightarrow> Inr (st1\<lparr>l_labels := Some (ls @ [name])\<rparr>))))"

definition loop_body ::
  "(color_spec \<Rightarrow> color option) \<Rightarrow> (elem \<Rightarrow> rat option) \<Rightarrow> locals \<Rightarrow> color_label
     \<Rightarrow> error + locals" where
  "loop_body pvc f32 st label =
     (case color_key label of
        None \<Rightarrow> Inl ValueError
      | Some c \<Rightarrow>
          (case pvc c of
             None \<Rightarrow> Inl ValueError
           | Some rgb \<Rightarrow>
               (case one_hot_part f32 (st\<lparr>l_colors := l_colors st @ [rgb]\<rparr>) label of
                  Inl e \<Rightarrow> Inl e
                | Inr st' \<Rightarrow> label_part st' label)))"

fun loop ::
  "(color_spec \<Rightarrow> color option) \<Rightarrow> (elem \<Rightarrow> rat option) \<Rightarrow> locals \<Rightarrow> color_label list
     \<Rightarrow> error + locals" where
  "loop pvc f32 st [] = Inr st"
| "loop pvc f32 st (label # rest) =
     (case loop_body pvc f32 st label of
        Inl e \<Rightarrow> Inl e
      | Inr st' \<Rightarrow> loop pvc f32 st' rest)"

definition from_list_of_color_labels ::
  "(color_spec \<Rightarrow> color option) \<Rightarrow> (elem \<Rightarrow> rat option) \<Rightarrow> color_label list
     \<Rightarrow> string list option \<Rightarrow> error + ColorLabels" where
  "from_list_of_color_labels pvc f32 color_labels ls =
     (case loop pvc f32
             \<lparr>l_colors = [], l_one_hot_encoding = None, l_labels = ls,
              has_one_hot = None, has_labels = None, one_hot_size = None\<rparr>
             color_labels of
        Inl e \<Rightarrow> Inl e
      | Inr st \<Rightarrow>
          ColorLabels_init (map TupleColor (l_colors st)) (l_one_hot_encoding st) (l_labels st))"

section \<open>Construction from colours\<close>

text \<open>\<^verbatim>\<open>[parse_and_validate_color(color) for color in colors]\<close>: the first failure raises.\<close>

fun parse_colors :: "(color_spec \<Rightarrow> color option) \<Rightarrow> color_spec list \<Rightarrow> error + color list" where
  "parse_colors pvc [] = Inr []"
| "parse_colors pvc (c # cs) =
     (case pvc c of
        None \<Rightarrow> Inl ValueError
      | Some rgb \<Rightarrow>
          (case parse_colors pvc cs of Inl e \<Rightarrow> Inl e | Inr rest \<Rightarrow> Inr (rgb # rest)))"

definition from_colors ::
  "(color_spec \<Rightarrow> color option) \<Rightarrow> color_spec list \<Rightarrow> string list option
     \<Rightarrow> error + ColorLabels" where
  "from_colors pvc cs ls =
     (case parse_colors pvc cs of
        Inl e \<Rightarrow> Inl e
      | Inr parsed \<Rightarrow>
          ColorLabels_init (map TupleColor ((0, 0, 0) # parsed)) None
            (if truthy ls then Some (''background'' # the ls) else ls))"

text \<open>
  Modelled from the spec: \<^verbatim>\<open>parse_and_validate_color\<close> is not among the sources. The
  spec: "given a color specification (name, hex, or numeric triple), returns a validated
  integer RGB triple in [0,255] or fails with ValidationError". A hex specification is
  read as \<^verbatim>\<open>#RRGGBB\<close>; the table of colour names is the parameter \<open>names\<close>.
\<close>

definition hex_digit :: "char \<Rightarrow> int option" where
  "hex_digit x =
     map_of (zip ''0123456789abcdef'' [0, 1, 2, 3, 4, 5, 6, 7, 8, 9, 10, 11, 12, 13, 14, 15] @
             zip ''ABCDEF'' [10, 11, 12, 13, 14, 15]) x"

definition hex_byte :: "char \<Rightarrow> char \<Rightarrow> int option" where
  "hex_byte h l =
     (case (hex_digit h, hex_digit l) of
        (Some a, Some b) \<Rightarrow> Some (16 * a + b)
      | _ \<Rightarrow> None)"

fun parse_and_validate_color :: "(string \<rightharpoonup> color) \<Rightarrow> color_spec \<Rightarrow> color option" where
  "parse_and_validate_color names (ColorTuple r g b) =
     (if 0 \<le> r \<and> r \<le> 255 \<and> 0 \<le> g \<and> g \<le> 255 \<and> 0 \<le> b \<and> b \<le> 255
      then Some (r, g, b) else None)"
| "parse_and_validate_color names (ColorStr s) =
     (case s of
        [h, r1, r2, g1, g2, b1, b2] \<Rightarrow>
          (if h = CHR ''#'' then
             (case (hex_byte r1 r2, hex_byte g1 g2, hex_byte b1 b2) of
                (Some r, Some g, Some b) \<Rightarrow> Some (r, g, b)
              | _ \<Rightarrow> None)
           else names s)
      | _ \<Rightarrow> names s)"

section \<open>All one-hot combinations and their colours\<close>

text \<open>
  \<^verbatim>\<open>get_all_one_hots\<close>: row \<open>i\<close> of \<^verbatim>\<open>np.arange(0, 2 ** num_classes)\<close> against column
  \<open>j\<close> of \<^verbatim>\<open>1 << np.arange(num_classes)\<close>, with \<^verbatim>\<open>&\<close>, \<^verbatim>\<open>> 0\<close> and
  \<^verbatim>\<open>astype(int)\<close>. NumPy computes in 64-bit integers; an array of \<open>2 ^ n\<close> rows exists in
  memory only for \<open>n\<close> far below 63, where no value leaves that range, so the entries are
  written as unbounded integers.
\<close>

definition get_all_one_hots :: "nat \<Rightarrow> int list list" where
  "get_all_one_hots n =
     map (\<lambda>i. map (\<lambda>j. if (i AND push_bit j 1) > 0 then 1 else 0) [0 ..< n])
       (map int [0 ..< 2 ^ n])"

text \<open>\<^verbatim>\<open>np.where(one_hot)[0]\<close>: the positions of the entries that are not zero.\<close>

definition np_where :: "int list \<Rightarrow> nat list" where
  "np_where one_hot = filter (\<lambda>k. one_hot ! k \<noteq> 0) [0 ..< length one_hot]"

text \<open>
  \<^verbatim>\<open>np.round(np.mean(..., axis=0)).astype(int)\<close> on one channel. The mean of \<open>k\<close>
  integers with sum \<open>s\<close> is \<open>s / k\<close>; \<^verbatim>\<open>np.round\<close> rounds to the nearest integer
  and a tie to the even one. For channels in 0..255 the 64-bit float of \<open>s / k\<close> rounds
  as the exact quotient does, so the quotient is computed exactly here.
\<close>

definition round_half_even :: "int \<Rightarrow> int \<Rightarrow> int" where
  "round_half_even s k =
     (let q = s div k; r = s mod k in
      if 2 * r < k then q
      else if 2 * r > k then q + 1
      else if even q then q else q + 1)"

definition round_mean :: "int list \<Rightarrow> int" where
  "round_mean xs = round_half_even (sum_list xs) (int (length xs))"

text \<open>The body of the loop of \<^verbatim>\<open>all_one_hot_and_colors\<close>: the colour of one combination.\<close>

definition mix_color :: "color list \<Rightarrow> int list \<Rightarrow> color" where
  "mix_color cs one_hot =
     (if sum_list one_hot = 0 then (0, 0, 0)
      else
        (let chosen = map (\<lambda>k. cs ! k) (np_where one_hot) in
         (round_mean (map fst chosen),
          round_mean (map (\<lambda>c. fst (snd c)) chosen),
          round_mean (map (\<lambda>c. snd (snd c)) chosen))))"

definition all_one_hot_and_colors :: "color list \<Rightarrow> int list list \<times> color list" where
  "all_one_hot_and_colors cs =
     (let one_hots = get_all_one_hots (length cs) in
      (one_hots, map (mix_color cs) one_hots))"

text \<open>
  For stating how colours are mixed: the base colours whose bit is set in a combination,
  and what it is for an integer to be nearest to the mean of a list of integers (at most
  one half away from it).
\<close>

definition bit_set_colors :: "color list \<Rightarrow> int list \<Rightarrow> color list" where
  "bit_set_colors cs one_hot =
     map (\<lambda>k. cs ! k) (filter (\<lambda>k. one_hot ! k = 1) [0 ..< length cs])"

definition nearest_to_mean :: "int \<Rightarrow> int list \<Rightarrow> bool" where
  "nearest_to_mean x xs =
     (\<bar>rat_of_int x - rat_of_int (sum_list xs) / rat_of_nat (length xs)\<bar> \<le> 1 / 2)"

text \<open>
  The condition of the spec under which converted values are refused: all values are
  integral and one of them is not 0 or 1, or not all values are integral and one of them
  lies outside the interval from 0 to 1.
\<close>

definition one_hot_rejected :: "rat list \<Rightarrow> bool" where
  "one_hot_rejected vs =
     (((\<forall>v \<in> set vs. v \<in> \<int>) \<and> (\<exists>v \<in> set vs. v \<notin> {0, 1}))
      \<or> (\<not> (\<forall>v \<in> set vs. v \<in> \<int>) \<and> (\<exists>v \<in> set vs. v < 0 \<or> v > 1)))"

text \<open>
  NumPy's conversion on the elements the examples below use: a Python number keeps its
  value (the numbers used are floats of 32 bits exactly), and a text of one character is a
  number only when the character is a decimal digit. Longer texts do not occur in the
  examples; this instance refuses them.
\<close>

definition f32_examples :: "elem \<Rightarrow> rat option" where
  "f32_examples e =
     (case e of
        NumE v \<Rightarrow> Some (num_val v)
      | StrE s \<Rightarrow>
          (case s of
             [x] \<Rightarrow> map_option rat_of_int
                      (map_of (zip ''0123456789'' [0, 1, 2, 3, 4, 5, 6, 7, 8, 9]) x)
           | _ \<Rightarrow> None))"

text \<open>The label names of the records that have the key \<^verbatim>\<open>"label"\<close>, in order.\<close>

definition record_labels :: "color_label list \<Rightarrow> string list" where
  "record_labels recs = map (\<lambda>r. the (label_key r)) (filter (\<lambda>r. label_key r \<noteq> None) recs)"

text \<open>
  For the proofs about the loop: the variables that are appended to hold a list whenever
  their flag is \<^verbatim>\<open>True\<close>; and the rows held by a variable that may be \<^verbatim>\<open>None\<close>.
\<close>

definition locals_ok :: "locals \<Rightarrow> bool" where
  "locals_ok st =
     ((has_one_hot st = Some True \<longrightarrow> l_one_hot_encoding st \<noteq> None)
      \<and> (has_labels st = Some True \<longrightarrow> l_labels st \<noteq> None))"

fun rows_of :: "'a list option \<Rightarrow> 'a list" where
  "rows_of None = []"
| "rows_of (Some xs) = xs"



text \<open>Writing a mapping to a file with \<open>to_json\<close> and reading that file back.\<close>

definition round_trip :: "ColorLabels \<Rightarrow> string \<Rightarrow> files \<Rightarrow> error + ColorLabels" where
  "round_trip m path fs =
     (case to_json m path fs of
        Inl e \<Rightarrow> Inl e
      | Inr fs' \<Rightarrow> from_labels_json_file fs' path)"

section \<open>Properties of the constructor\<close>

lemma init_fields:
  "ColorLabels_init cs ohe ls = Inr m \<Longrightarrow>
     colors m = cs \<and> one_hot_encoding m = ohe \<and> labels m = ls"
  by (auto simp add: ColorLabels_init_def Let_def split: if_splits)

text \<open>
  Claim C6, as amended: when the constructor is given a one-hot table that is not empty and
  whose number of rows differs from the number of colours, it raises \<^verbatim>\<open>ValueError\<close>,
  whatever the labels are. (The claim as stated also covers the empty table, which the
  test \<^verbatim>\<open>if one_hot_encoding:\<close> lets through; see the counterexample.)
\<close>

theorem init_row_count_mismatch:
  assumes "rows \<noteq> []" and "length rows \<noteq> length cs"
  shows "ColorLabels_init cs (Some rows) ls = Inl ValueError"
  using assms by (simp add: ColorLabels_init_def)

text \<open>Three colours and two one-hot rows: the constructor raises \<^verbatim>\<open>ValueError\<close>.\<close>

theorem init_row_count_mismatch_witness:
  "[[IntV 0, IntV 1], [IntV 1, IntV 0]] \<noteq> ([] :: pynum list list)
   \<and> length [[IntV 0, IntV 1], [IntV 1, IntV 0]]
       \<noteq> length [TupleColor (0, 0, 0), TupleColor (255, 0, 0), TupleColor (0, 255, 0) :: pycolor]
   \<and> ColorLabels_init [TupleColor (0, 0, 0), TupleColor (255, 0, 0), TupleColor (0, 255, 0)]
        (Some [[IntV 0, IntV 1], [IntV 1, IntV 0]]) None = Inl ValueError"
  using init_row_count_mismatch
    [of "[[IntV 0, IntV 1], [IntV 1, IntV 0]]" "[TupleColor (0, 0, 0), TupleColor (255, 0, 0), TupleColor (0, 255, 0)]" None]
  by simp

text \<open>
  The claim C6 as stated fails: a one-hot table that is present but empty has zero rows,
  three colours are given, and the constructor returns an object.
\<close>

theorem init_row_count_counterexample:
  "ColorLabels_init [TupleColor (0, 0, 0), TupleColor (255, 0, 0), TupleColor (0, 255, 0)] (Some []) None =
     Inr \<lparr>colors = [TupleColor (0, 0, 0), TupleColor (255, 0, 0), TupleColor (0, 255, 0)], one_hot_encoding = Some [],
          labels = None, log_labels = None\<rparr>"
  by (simp add: ColorLabels_init_def)

text \<open>
  Claim C9: for every non-empty list of colours, the constructor called with the empty list
  as one-hot table returns an object (no row count is compared); the object is multilabel,
  and its number of classes is the number of colours. Labels may be absent, empty, or as
  many as the colours.
\<close>

theorem init_empty_one_hot:
  assumes "cs \<noteq> []" and "\<not> truthy ls \<or> length (the ls) = length cs"
  shows "\<exists>m. ColorLabels_init cs (Some []) ls = Inr m \<and> multilabel m
            \<and> num_classes m = length cs \<and> colors m = cs
            \<and> one_hot_encoding m = Some [] \<and> labels m = ls"
  using assms
  by (auto simp add: ColorLabels_init_def multilabel_def num_classes_def Let_def)

theorem init_empty_one_hot_witness:
  "[TupleColor (0, 0, 0), TupleColor (255, 0, 0)] \<noteq> ([] :: pycolor list)
   \<and> (\<exists>m. ColorLabels_init [TupleColor (0, 0, 0), TupleColor (255, 0, 0)] (Some []) None = Inr m \<and> multilabel m
          \<and> num_classes m = length [TupleColor (0, 0, 0), TupleColor (255, 0, 0) :: pycolor]
          \<and> colors m = [TupleColor (0, 0, 0), TupleColor (255, 0, 0)]
          \<and> one_hot_encoding m = Some [] \<and> labels m = None)"
  using init_empty_one_hot [of "[TupleColor (0, 0, 0), TupleColor (255, 0, 0)]" None] by simp

section \<open>The one-hot combinations and their colours\<close>

lemma and_bit_pos: "(int i AND 2 ^ j) > 0 \<longleftrightarrow> bit i j"
proof -
  have nonneg: "0 \<le> int i AND 2 ^ j"
    by simp
  have "int i AND 2 ^ j \<noteq> 0 \<longleftrightarrow> bit (int i) j"
    by (simp add: and_exp_eq_0_iff_not_bit)
  also have "\<dots> \<longleftrightarrow> bit i j"
    by (simp add: bit_of_nat_iff_bit)
  finally show ?thesis
    using nonneg by linarith
qed

lemma one_hots_length: "length (get_all_one_hots n) = 2 ^ n"
  by (simp add: get_all_one_hots_def)

lemma one_hots_row_length: "i < 2 ^ n \<Longrightarrow> length (get_all_one_hots n ! i) = n"
  by (simp add: get_all_one_hots_def)

lemma one_hots_entry_bit:
  assumes "i < 2 ^ n" and "j < n"
  shows "get_all_one_hots n ! i ! j = (if bit i j then 1 else 0)"
  using assms by (simp add: get_all_one_hots_def and_bit_pos)

lemma one_hots_single_bit:
  assumes "j < n"
  shows "get_all_one_hots n ! (2 ^ j) = (replicate n 0)[j := 1]"
proof (rule nth_equalityI)
  have lt: "(2::nat) ^ j < 2 ^ n" using assms by simp
  show "length (get_all_one_hots n ! (2 ^ j)) = length ((replicate n (0::int))[j := 1])"
    using lt by (simp add: one_hots_row_length)
  fix k assume "k < length (get_all_one_hots n ! (2 ^ j))"
  then have k: "k < n" using lt by (simp add: one_hots_row_length)
  show "get_all_one_hots n ! (2 ^ j) ! k = (replicate n 0)[j := 1] ! k"
    using k lt assms by (auto simp add: one_hots_entry_bit bit_exp_iff nth_list_update)
qed

lemma round_half_even_nearest:
  assumes "0 < k"
  shows "\<bar>rat_of_int (round_half_even s k) - rat_of_int s / rat_of_int k\<bar> \<le> 1 / 2"
proof -
  define q where "q = s div k"
  define r where "r = s mod k"
  have s: "s = k * q + r" and r: "0 \<le> r" "r < k"
    using assms by (simp_all add: q_def r_def)
  have kpos: "0 < rat_of_int k" using assms by simp
  have quot: "rat_of_int s / rat_of_int k = rat_of_int q + rat_of_int r / rat_of_int k"
    using kpos by (simp add: s field_simps)
  have r0: "0 \<le> rat_of_int r / rat_of_int k" using r kpos by simp
  have r1: "rat_of_int r / rat_of_int k < 1" using r kpos by simp
  consider (lo) "2 * r < k" | (hi) "2 * r > k" | (tie) "2 * r = k" by linarith
  then show ?thesis
  proof cases
    case lo
    then have "rat_of_int (2 * r) < rat_of_int k" by (simp only: of_int_less_iff)
    then have "rat_of_int r / rat_of_int k \<le> 1 / 2" using kpos by (simp add: field_simps)
    moreover have "round_half_even s k = q" using lo by (simp add: round_half_even_def q_def r_def Let_def)
    ultimately show ?thesis using r0 by (simp add: quot)
  next
    case hi
    then have "rat_of_int k < rat_of_int (2 * r)" by (simp only: of_int_less_iff)
    then have "1 / 2 \<le> rat_of_int r / rat_of_int k" using kpos by (simp add: field_simps)
    moreover have "round_half_even s k = q + 1" using hi by (simp add: round_half_even_def q_def r_def Let_def)
    ultimately show ?thesis using r1 by (simp add: quot)
  next
    case tie
    then have "rat_of_int (2 * r) = rat_of_int k" by simp
    then have h: "rat_of_int r / rat_of_int k = 1 / 2" using kpos by (simp add: field_simps)
    have mid: "rat_of_int s / rat_of_int k = rat_of_int q + 1 / 2"
      by (simp only: quot h)
    have "round_half_even s k = q \<or> round_half_even s k = q + 1"
      by (simp add: round_half_even_def q_def r_def Let_def)
    then show ?thesis
    proof
      assume "round_half_even s k = q"
      then show ?thesis by (simp add: mid)
    next
      assume "round_half_even s k = q + 1"
      then show ?thesis by (simp add: mid)
    qed
  qed
qed

lemma round_mean_nearest: "xs \<noteq> [] \<Longrightarrow> nearest_to_mean (round_mean xs) xs"
  using round_half_even_nearest [of "int (length xs)" "sum_list xs"]
  by (simp add: nearest_to_mean_def round_mean_def)

lemma round_mean_single: "round_mean [x] = x"
  by (simp add: round_mean_def round_half_even_def)


lemma np_where_single:
  assumes "j < n"
  shows "np_where ((replicate n 0)[j := 1]) = [j]"
proof -
  have "[0 ..< j + (n - j)] = [0 ..< j] @ [j ..< j + (n - j)]"
    by (rule upt_add_eq_append) simp
  then have split: "[0 ..< n] = [0 ..< j] @ [j] @ [Suc j ..< n]"
    using assms by (simp add: upt_conv_Cons)
  have "filter (\<lambda>k. (replicate n (0::int))[j := 1] ! k \<noteq> 0) [0 ..< n] = [j]"
    unfolding split using assms by (auto simp add: filter_empty_conv nth_list_update)
  then show ?thesis by (simp add: np_where_def)
qed

lemma mix_color_zero: "mix_color cs (replicate n 0) = (0, 0, 0)"
  by (simp add: mix_color_def sum_list_replicate)

lemma sum_list_single: "j < n \<Longrightarrow> sum_list ((replicate n (0::int))[j := 1]) = 1"
  by (simp add: upd_conv_take_nth_drop sum_list_replicate)

lemma mix_color_single:
  assumes "j < n"
  shows "mix_color cs ((replicate n 0)[j := 1]) = cs ! j"
  using assms
  by (simp add: mix_color_def np_where_single sum_list_single round_mean_single)

lemma one_hots_entries:
  assumes "i < 2 ^ n"
  shows "set (get_all_one_hots n ! i) \<subseteq> {0, 1}"
  using assms by (auto simp add: get_all_one_hots_def)

lemma mix_color_nonzero:
  assumes "i < 2 ^ length cs" and "get_all_one_hots (length cs) ! i \<noteq> replicate (length cs) 0"
  shows "mix_color cs (get_all_one_hots (length cs) ! i) =
           (round_mean (map fst (bit_set_colors cs (get_all_one_hots (length cs) ! i))),
            round_mean (map (\<lambda>c. fst (snd c)) (bit_set_colors cs (get_all_one_hots (length cs) ! i))),
            round_mean (map (\<lambda>c. snd (snd c)) (bit_set_colors cs (get_all_one_hots (length cs) ! i))))
         \<and> bit_set_colors cs (get_all_one_hots (length cs) ! i) \<noteq> []"
proof -
  define row where "row = get_all_one_hots (length cs) ! i"
  have len: "length row = length cs"
    using assms(1) by (simp add: row_def one_hots_row_length)
  have ent: "set row \<subseteq> {0, 1}"
    using assms(1) by (simp add: row_def one_hots_entries)
  have ex1: "\<exists>k < length cs. row ! k = 1"
  proof (rule ccontr)
    assume "\<not> (\<exists>k < length cs. row ! k = 1)"
    then have "\<forall>k < length cs. row ! k = 0"
      using ent len by (metis insert_iff nth_mem singletonD subsetD)
    then have "row = replicate (length cs) 0"
      using len by (simp add: list_eq_iff_nth_eq)
    with assms(2) show False by (simp add: row_def)
  qed
  have nonneg: "\<forall>x \<in> set row. 0 \<le> x" using ent by auto
  have "sum_list row \<noteq> 0"
  proof
    assume "sum_list row = 0"
    then have "\<forall>x \<in> set row. x = 0"
      using nonneg by (simp add: sum_list_nonneg_eq_0_iff)
    with ex1 len show False by (metis nth_mem zero_neq_one)
  qed
  moreover have "np_where row = filter (\<lambda>k. row ! k = 1) [0 ..< length cs]"
    unfolding np_where_def len
  proof (rule filter_cong [OF refl])
    fix k assume "k \<in> set [0 ..< length cs]"
    then have "row ! k \<in> set row" using len by simp
    with ent have "row ! k = 0 \<or> row ! k = 1" by auto
    then show "(row ! k \<noteq> 0) = (row ! k = 1)" by auto
  qed
  moreover have "filter (\<lambda>k. row ! k = 1) [0 ..< length cs] \<noteq> []"
    using ex1 by (auto simp add: filter_empty_conv)
  ultimately show ?thesis
    unfolding row_def [symmetric]
    by (simp add: mix_color_def bit_set_colors_def Let_def)
qed


lemma one_hots_bits_eq:
  assumes "i < 2 ^ n" "k < 2 ^ n" "\<forall>j<n. bit i j = bit (k::nat) j"
  shows "i = k"
proof -
  have "bit i j = bit k j" for j
  proof (cases "j < n")
    case True
    with assms(3) show ?thesis by simp
  next
    case False
    then have "2 ^ n \<le> (2::nat) ^ j" by simp
    with assms(1,2) have "i < 2 ^ j" "k < 2 ^ j" by linarith+
    then show ?thesis by (simp add: bit_iff_odd)
  qed
  then show ?thesis by (rule bit_eqI)
qed

lemma one_hots_distinct: "distinct (get_all_one_hots n)"
proof -
  have "i = k" if "i < 2 ^ n" "k < 2 ^ n" "get_all_one_hots n ! i = get_all_one_hots n ! k" for i k
  proof (rule one_hots_bits_eq [OF that(1,2)], intro allI impI)
    fix j assume "j < n"
    have "(if bit i j then 1 else 0) = (if bit k j then 1 else (0::int))"
      using one_hots_entry_bit [OF that(1) \<open>j < n\<close>] one_hots_entry_bit [OF that(2) \<open>j < n\<close>] that(3)
      by simp
    then show "bit i j = bit k j" by (simp split: if_splits)
  qed
  then show ?thesis
    by (auto simp add: distinct_conv_nth one_hots_length)
qed

lemma one_hots_row_zero: "get_all_one_hots n ! 0 = replicate n 0"
proof (rule nth_equalityI)
  show "length (get_all_one_hots n ! 0) = length (replicate n (0::int))"
    by (simp add: one_hots_row_length)
  fix j assume "j < length (get_all_one_hots n ! 0)"
  then have "j < n" by (simp add: one_hots_row_length)
  then show "get_all_one_hots n ! 0 ! j = replicate n 0 ! j"
    by (simp add: one_hots_entry_bit)
qed

text \<open>
  Claim C3: \<open>get_all_one_hots n\<close> has exactly \<open>2 ^ n\<close> rows, no two of them equal, each of
  length \<open>n\<close>; row 0 is all zero; entry \<open>j\<close> of row \<open>i\<close> is bit \<open>j\<close> of \<open>i\<close>, the least
  significant bit at position 0.
\<close>

theorem get_all_one_hots_rows:
  "length (get_all_one_hots n) = 2 ^ n
   \<and> distinct (get_all_one_hots n)
   \<and> (\<forall>row \<in> set (get_all_one_hots n). length row = n)
   \<and> get_all_one_hots n ! 0 = replicate n 0
   \<and> (\<forall>i::nat. \<forall>j::nat. i < 2 ^ n \<longrightarrow> j < n \<longrightarrow>
          get_all_one_hots n ! i ! j = int ((i div 2 ^ j) mod 2))"
proof (intro conjI allI impI ballI)
  show "length (get_all_one_hots n) = 2 ^ n" by (rule one_hots_length)
  show "distinct (get_all_one_hots n)" by (rule one_hots_distinct)
  show "get_all_one_hots n ! 0 = replicate n 0" by (rule one_hots_row_zero)
next
  fix row assume "row \<in> set (get_all_one_hots n)"
  then show "length row = n" by (auto simp add: get_all_one_hots_def)
next
  fix i j :: nat assume "i < 2 ^ n" "j < n"
  then show "get_all_one_hots n ! i ! j = int ((i div 2 ^ j) mod 2)"
    by (simp add: one_hots_entry_bit bit_iff_odd odd_iff_mod_2_eq_one)
qed

theorem get_all_one_hots_rows_witness:
  "length (get_all_one_hots 2) = 2 ^ 2
   \<and> distinct (get_all_one_hots 2)
   \<and> [1, 0] \<in> set (get_all_one_hots 2) \<and> length [1, 0 :: int] = 2
   \<and> get_all_one_hots 2 ! 0 = replicate 2 0
   \<and> (2::nat) < 2 ^ 2 \<and> (1::nat) < 2
   \<and> get_all_one_hots 2 ! 2 ! 1 = int ((2 div 2 ^ 1) mod 2)
   \<and> get_all_one_hots 2 = [[0, 0], [1, 0], [0, 1], [1, 1]]"
proof -
  have ev: "get_all_one_hots 2 = [[0, 0], [1, 0], [0, 1], [1, 1]]"
    by code_simp
  have r: "replicate 2 (0::int) = [0, 0]"
    by (simp add: numeral_2_eq_2)
  show ?thesis
    using get_all_one_hots_rows [of 2] unfolding ev r by simp
qed

text \<open>
  Claim C4: \<open>all_one_hot_and_colors\<close> returns the rows of \<open>get_all_one_hots\<close> and as
  many colours, colour \<open>i\<close> belonging to row \<open>i\<close>. The colour of the all-zero row (row 0) is
  \<open>(0, 0, 0)\<close>; the colour of the row with the single bit \<open>j\<close> (row \<open>2 ^ j\<close>) is base
  colour \<open>j\<close>; the colour of every row that is not all zero is, channel by channel, an integer
  nearest to the mean of the base colours whose bit is set.
\<close>

theorem all_one_hot_and_colors_rows:
  "case all_one_hot_and_colors cs of (one_hots, final_colors) \<Rightarrow>
     one_hots = get_all_one_hots (length cs)
     \<and> length final_colors = length one_hots
     \<and> one_hots ! 0 = replicate (length cs) 0 \<and> final_colors ! 0 = (0, 0, 0)
     \<and> (\<forall>i < 2 ^ length cs.
           one_hots ! i = replicate (length cs) 0 \<longrightarrow> final_colors ! i = (0, 0, 0))
     \<and> (\<forall>j < length cs.
           one_hots ! (2 ^ j) = (replicate (length cs) 0)[j := 1]
           \<and> final_colors ! (2 ^ j) = cs ! j)
     \<and> (\<forall>i < 2 ^ length cs. \<forall>j < length cs.
           one_hots ! i = (replicate (length cs) 0)[j := 1] \<longrightarrow> final_colors ! i = cs ! j)
     \<and> (\<forall>i < 2 ^ length cs.
           one_hots ! i \<noteq> replicate (length cs) 0 \<longrightarrow>
             (case final_colors ! i of (r, g, b) \<Rightarrow>
                bit_set_colors cs (one_hots ! i) \<noteq> []
                \<and> nearest_to_mean r (map fst (bit_set_colors cs (one_hots ! i)))
                \<and> nearest_to_mean g (map (\<lambda>c. fst (snd c)) (bit_set_colors cs (one_hots ! i)))
                \<and> nearest_to_mean b (map (\<lambda>c. snd (snd c)) (bit_set_colors cs (one_hots ! i)))))"
proof -
  define n where "n = length cs"
  define ohs where "ohs = get_all_one_hots n"
  have len: "length ohs = 2 ^ n" by (simp add: ohs_def one_hots_length)
  have col: "map (mix_color cs) ohs ! i = mix_color cs (ohs ! i)" if "i < 2 ^ n" for i
    using that len by simp
  have zero: "ohs ! 0 = replicate n 0" by (simp add: ohs_def one_hots_row_zero)
  have c0: "map (mix_color cs) ohs ! 0 = (0, 0, 0)"
    using col [of 0] by (simp add: zero mix_color_zero)
  have cz: "map (mix_color cs) ohs ! i = (0, 0, 0)" if "i < 2 ^ n" "ohs ! i = replicate n 0" for i
    using that by (simp add: col mix_color_zero)
  have cs1: "map (mix_color cs) ohs ! i = cs ! j"
    if "i < 2 ^ n" "j < n" "ohs ! i = (replicate n 0)[j := 1]" for i j
    using that by (simp add: col mix_color_single)
  have single: "ohs ! (2 ^ j) = (replicate n 0)[j := 1]" if "j < n" for j
    using that by (simp add: ohs_def one_hots_single_bit)
  have cs2: "map (mix_color cs) ohs ! (2 ^ j) = cs ! j" if "j < n" for j
    using that cs1 [of "2 ^ j" j] single [of j] by simp
  have mixed: "case map (mix_color cs) ohs ! i of (r, g, b) \<Rightarrow>
                bit_set_colors cs (ohs ! i) \<noteq> []
                \<and> nearest_to_mean r (map fst (bit_set_colors cs (ohs ! i)))
                \<and> nearest_to_mean g (map (\<lambda>c. fst (snd c)) (bit_set_colors cs (ohs ! i)))
                \<and> nearest_to_mean b (map (\<lambda>c. snd (snd c)) (bit_set_colors cs (ohs ! i)))"
    if "i < 2 ^ n" "ohs ! i \<noteq> replicate n 0" for i
  proof -
    have m: "mix_color cs (ohs ! i) =
           (round_mean (map fst (bit_set_colors cs (ohs ! i))),
            round_mean (map (\<lambda>c. fst (snd c)) (bit_set_colors cs (ohs ! i))),
            round_mean (map (\<lambda>c. snd (snd c)) (bit_set_colors cs (ohs ! i))))"
      and ne: "bit_set_colors cs (ohs ! i) \<noteq> []"
      using mix_color_nonzero [of i cs] that by (simp_all add: ohs_def n_def)
    show ?thesis
      using ne by (simp add: col that(1) m round_mean_nearest)
  qed
  show ?thesis
    unfolding all_one_hot_and_colors_def Let_def n_def [symmetric] ohs_def [symmetric]
    using len zero c0 cz cs1 single cs2 mixed by simp
qed

theorem all_one_hot_and_colors_rows_witness:
  "(3::nat) < 2 ^ length [(255, 0, 0), (0, 0, 255) :: color]
   \<and> (1::nat) < length [(255, 0, 0), (0, 0, 255) :: color]
   \<and> all_one_hot_and_colors [(255, 0, 0), (0, 0, 255)] =
       ([[0, 0], [1, 0], [0, 1], [1, 1]], [(0, 0, 0), (255, 0, 0), (0, 0, 255), (128, 0, 128)])
   \<and> [[0, 0], [1, 0], [0, 1], [1, 1]] ! 3 \<noteq> replicate (length [(255, 0, 0), (0, 0, 255) :: color]) (0::int)
   \<and> [(0, 0, 0), (255, 0, 0), (0, 0, 255), (128, 0, 128) :: color] ! 0 = (0, 0, 0)
   \<and> [(0, 0, 0), (255, 0, 0), (0, 0, 255), (128, 0, 128)] ! (2 ^ 1)
       = [(255, 0, 0), (0, 0, 255) :: color] ! 1
   \<and> (case [(0, 0, 0), (255, 0, 0), (0, 0, 255), (128, 0, 128) :: color] ! 3 of (r, g, b) \<Rightarrow>
         bit_set_colors [(255, 0, 0), (0, 0, 255)] ([[0, 0], [1, 0], [0, 1], [1, 1]] ! 3) \<noteq> []
         \<and> nearest_to_mean r (map fst
               (bit_set_colors [(255, 0, 0), (0, 0, 255)] ([[0, 0], [1, 0], [0, 1], [1, 1]] ! 3)))
         \<and> nearest_to_mean g (map (\<lambda>c. fst (snd c))
               (bit_set_colors [(255, 0, 0), (0, 0, 255)] ([[0, 0], [1, 0], [0, 1], [1, 1]] ! 3)))
         \<and> nearest_to_mean b (map (\<lambda>c. snd (snd c))
               (bit_set_colors [(255, 0, 0), (0, 0, 255)] ([[0, 0], [1, 0], [0, 1], [1, 1]] ! 3))))"
proof -
  let ?cs = "[(255, 0, 0), (0, 0, 255) :: color]"
  have ev: "all_one_hot_and_colors ?cs =
      ([[0, 0], [1, 0], [0, 1], [1, 1]], [(0, 0, 0), (255, 0, 0), (0, 0, 255), (128, 0, 128)])"
    by code_simp
  have h1: "(3::nat) < 2 ^ length ?cs" and h2: "(1::nat) < length ?cs"
    by simp_all
  have h3: "[[0, 0], [1, 0], [0, 1], [1, 1]] ! 3 \<noteq> replicate (length ?cs) (0::int)"
    by (simp add: numeral_2_eq_2)
  note T = all_one_hot_and_colors_rows [of ?cs, unfolded ev prod.case]
  note T4 = T [THEN conjunct2, THEN conjunct2, THEN conjunct2]
  note T6 = T4 [THEN conjunct2, THEN conjunct2]
  note T8 = T6 [THEN conjunct2, THEN conjunct2]
  note c0 = T4 [THEN conjunct1]
  note c1 = T6 [THEN conjunct1, rule_format, OF h2, THEN conjunct2]
  note c3 = T8 [rule_format, OF h1 h3]
  show ?thesis
    by (intro conjI h1 h2 ev h3 c0 c1 c3)
qed

section \<open>Construction from colours: properties\<close>

lemma parse_colors_map:
  "parse_colors pvc cs = Inr parsed \<Longrightarrow> map pvc cs = map Some parsed"
  by (induction cs arbitrary: parsed) (auto split: option.splits sum.splits)

text \<open>
  Claim C8, as amended: for colour specifications \<open>cs\<close> that all parse (to \<open>parsed\<close>, in
  order) and a list \<open>ls\<close> of labels that is not empty and as long as \<open>cs\<close>,
  \<open>from_colors\<close> returns a mapping that is not multilabel, whose colours are \<open>(0, 0, 0)\<close>
  followed by the parsed colours and whose labels are \<^verbatim>\<open>"background"\<close> followed by \<open>ls\<close>.
  (With the empty label list nothing is prepended; see the counterexample.)
\<close>

theorem from_colors_background:
  assumes "parse_colors pvc cs = Inr parsed" and "ls \<noteq> []" and "length ls = length cs"
  shows "map pvc cs = map Some parsed
         \<and> from_colors pvc cs (Some ls) =
             Inr \<lparr>colors = map TupleColor ((0, 0, 0) # parsed), one_hot_encoding = None,
                  labels = Some (''background'' # ls),
                  log_labels = Some (''background'' # ls)\<rparr>
         \<and> \<not> multilabel \<lparr>colors = map TupleColor ((0, 0, 0) # parsed), one_hot_encoding = None,
                  labels = Some (''background'' # ls),
                  log_labels = Some (''background'' # ls)\<rparr>"
proof -
  have "length parsed = length cs"
    using parse_colors_map [OF assms(1)] by (metis length_map)
  then show ?thesis
    using assms parse_colors_map [OF assms(1)]
    by (simp add: from_colors_def ColorLabels_init_def num_classes_def multilabel_def Let_def)
qed

text \<open>
  The example of the claim: \<^verbatim>\<open>from_colors(["#FF0000", "#00FF00"], labels=["red", "green"])\<close>,
  with the colour parser as the spec describes it.
\<close>

theorem from_colors_background_witness:
  "parse_colors (parse_and_validate_color Map.empty) [ColorStr ''#FF0000'', ColorStr ''#00FF00'']
       = Inr [(255, 0, 0), (0, 255, 0)]
   \<and> [''red'', ''green''] \<noteq> []
   \<and> length [''red'', ''green''] = length [ColorStr ''#FF0000'', ColorStr ''#00FF00'']
   \<and> from_colors (parse_and_validate_color Map.empty)
         [ColorStr ''#FF0000'', ColorStr ''#00FF00''] (Some [''red'', ''green'']) =
       Inr \<lparr>colors = [TupleColor (0, 0, 0), TupleColor (255, 0, 0), TupleColor (0, 255, 0)],
            one_hot_encoding = None,
            labels = Some [''background'', ''red'', ''green''],
            log_labels = Some [''background'', ''red'', ''green'']\<rparr>
   \<and> \<not> multilabel \<lparr>colors = [TupleColor (0, 0, 0), TupleColor (255, 0, 0), TupleColor (0, 255, 0)],
            one_hot_encoding = None,
            labels = Some [''background'', ''red'', ''green''],
            log_labels = Some [''background'', ''red'', ''green'']\<rparr>"
proof -
  have p: "parse_colors (parse_and_validate_color Map.empty)
             [ColorStr ''#FF0000'', ColorStr ''#00FF00''] = Inr [(255, 0, 0), (0, 255, 0)]"
    by (simp add: hex_byte_def hex_digit_def)
  have n: "[''red'', ''green''] \<noteq> []" by simp
  have l: "length [''red'', ''green''] = length [ColorStr ''#FF0000'', ColorStr ''#00FF00'']"
    by simp
  note T = from_colors_background [OF p n l, unfolded list.map]
  show ?thesis
    by (intro conjI p n l T [THEN conjunct2, THEN conjunct1] T [THEN conjunct2, THEN conjunct2])
qed

text \<open>
  The claim C8 as stated fails for the empty list of colours with the empty list of labels
  (a label list of matching length): \<^verbatim>\<open>if labels:\<close> is false for the empty list, so
  the labels of the result are the empty list and not \<^verbatim>\<open>["background"]\<close>.
\<close>

theorem from_colors_background_counterexample:
  "from_colors (parse_and_validate_color Map.empty) [] (Some []) =
     Inr \<lparr>colors = [TupleColor (0, 0, 0)], one_hot_encoding = None, labels = Some [],
          log_labels = None\<rparr>"
  by (simp add: from_colors_def ColorLabels_init_def)

section \<open>Parsing a one-hot vector: properties\<close>

lemma is_int_array_iff: "is_int_array vs \<longleftrightarrow> (\<forall>v \<in> set vs. v \<in> \<int>)"
  by (auto simp add: is_int_array_def list_all_iff Ints_def)

lemma those_list_length: "those_list xs = Some ys \<Longrightarrow> length ys = length xs"
  by (induction xs arbitrary: ys rule: those_list.induct) (auto split: option.splits)

lemma np_int32_bit: "v = 0 \<or> v = 1 \<Longrightarrow> rat_of_int (np_int32 (FloatV v)) = v"
  by (auto simp add: int32_def trunc_def)

lemma parse_error_kind: "parse_validate_one_hot f32 one_hot = Inl e \<Longrightarrow> e = ValueError"
  by (auto simp add: parse_validate_one_hot_def split: option.splits if_splits)

lemma parse_uncoerced:
  "astype_float32 f32 one_hot = None \<Longrightarrow> parse_validate_one_hot f32 one_hot = Inl ValueError"
  by (auto simp add: parse_validate_one_hot_def astype_float32_def split: option.splits)

lemma parse_coerced:
  assumes "astype_float32 f32 one_hot = Some vs"
  shows "parse_validate_one_hot f32 one_hot =
           (if one_hot_rejected vs then Inl ValueError
            else if \<forall>v \<in> set vs. v \<in> \<int> then Inr (map (\<lambda>v. IntV (np_int32 (FloatV v))) vs)
            else Inr (map FloatV vs))"
  using assms
  by (auto simp add: parse_validate_one_hot_def astype_float32_def one_hot_rejected_def
        is_int_array_iff list_ex_iff split: option.splits)

lemma parse_values:
  assumes "astype_float32 f32 one_hot = Some vs" and "\<not> one_hot_rejected vs"
  shows "\<exists>res. parse_validate_one_hot f32 one_hot = Inr res \<and> map num_val res = vs"
proof (cases "\<forall>v \<in> set vs. v \<in> \<int>")
  case True
  with assms(2) have "\<forall>v \<in> set vs. v = 0 \<or> v = 1"
    by (auto simp add: one_hot_rejected_def)
  then have "map (\<lambda>v. num_val (IntV (np_int32 (FloatV v)))) vs = vs"
    by (simp add: map_idI np_int32_bit del: np_int32.simps)
  with True assms show ?thesis
    by (simp add: parse_coerced comp_def del: np_int32.simps)
next
  case False
  have "parse_validate_one_hot f32 one_hot = Inr (map FloatV vs)"
    using False assms by (simp only: parse_coerced if_False)
  then show ?thesis
    by (simp add: comp_def)
qed


text \<open>
  Claim C5, as amended: \<open>parse_validate_one_hot\<close> raises \<^verbatim>\<open>ValueError\<close> exactly when
  the input cannot be converted to numbers (it is neither a string nor sized, or NumPy
  refuses one of its elements), or when after the conversion either all values are integral
  and one is not 0 or 1, or not all values are integral and one is below 0 or above 1.
  Otherwise it returns the converted values, in the order and of the length of the input.
  It raises no other error.
\<close>

theorem parse_validate_one_hot_raises:
  "(case astype_float32 f32 one_hot of
      None \<Rightarrow> parse_validate_one_hot f32 one_hot = Inl ValueError
    | Some vs \<Rightarrow>
        (parse_validate_one_hot f32 one_hot = Inl ValueError \<longleftrightarrow> one_hot_rejected vs)
        \<and> (\<not> one_hot_rejected vs \<longrightarrow>
             (\<exists>res es. parse_validate_one_hot f32 one_hot = Inr res
                \<and> map num_val res = vs
                \<and> one_hot_elems one_hot = Some es \<and> length res = length es)))
   \<and> (\<forall>e. parse_validate_one_hot f32 one_hot = Inl e \<longrightarrow> e = ValueError)"
proof (intro conjI allI impI)
  show "case astype_float32 f32 one_hot of
      None \<Rightarrow> parse_validate_one_hot f32 one_hot = Inl ValueError
    | Some vs \<Rightarrow>
        (parse_validate_one_hot f32 one_hot = Inl ValueError \<longleftrightarrow> one_hot_rejected vs)
        \<and> (\<not> one_hot_rejected vs \<longrightarrow>
             (\<exists>res es. parse_validate_one_hot f32 one_hot = Inr res
                \<and> map num_val res = vs
                \<and> one_hot_elems one_hot = Some es \<and> length res = length es))"
  proof (cases "astype_float32 f32 one_hot")
    case None
    then show ?thesis by (simp add: parse_uncoerced)
  next
    case (Some vs)
    have iff: "parse_validate_one_hot f32 one_hot = Inl ValueError \<longleftrightarrow> one_hot_rejected vs"
      by (simp add: parse_coerced [OF Some])
    have val: "\<exists>res es. parse_validate_one_hot f32 one_hot = Inr res \<and> map num_val res = vs
                \<and> one_hot_elems one_hot = Some es \<and> length res = length es"
      if "\<not> one_hot_rejected vs"
    proof -
      from parse_values [OF Some that] obtain res
        where res: "parse_validate_one_hot f32 one_hot = Inr res" "map num_val res = vs"
        by blast
      from Some obtain es where es: "one_hot_elems one_hot = Some es" "those_list (map f32 es) = Some vs"
        by (auto simp add: astype_float32_def split: option.splits)
      have "length res = length vs" using res(2) by (metis length_map)
      also have "\<dots> = length es" using those_list_length [OF es(2)] by simp
      finally show ?thesis using res es(1) by blast
    qed
    show ?thesis using iff val by (simp add: Some)
  qed
next
  fix e assume "parse_validate_one_hot f32 one_hot = Inl e"
  then show "e = ValueError" by (rule parse_error_kind)
qed

theorem parse_validate_one_hot_raises_witness:
  "astype_float32 f32_examples (OneHotStr ''0110'') = Some [0, 1, 1, 0]
   \<and> \<not> one_hot_rejected [0, 1, 1, 0]
   \<and> (\<exists>res es. parse_validate_one_hot f32_examples (OneHotStr ''0110'') = Inr res
          \<and> map num_val res = [0, 1, 1, 0]
          \<and> one_hot_elems (OneHotStr ''0110'') = Some es \<and> length res = length es)
   \<and> parse_validate_one_hot f32_examples (OneHotStr ''0110'') = Inr [IntV 0, IntV 1, IntV 1, IntV 0]
   \<and> astype_float32 f32_examples (OneHotSeq [NumE (FloatV (1 / 2)), NumE (IntV 2)]) = Some [1 / 2, 2]
   \<and> one_hot_rejected [1 / 2, 2]
   \<and> parse_validate_one_hot f32_examples (OneHotSeq [NumE (FloatV (1 / 2)), NumE (IntV 2)])
       = Inl ValueError"
proof -
  have a1: "astype_float32 f32_examples (OneHotStr ''0110'') = Some [0, 1, 1, 0]"
    by (simp add: astype_float32_def f32_examples_def)
  have n1: "\<not> one_hot_rejected [0, 1, 1, 0]"
    by (simp add: one_hot_rejected_def)
  have a2: "astype_float32 f32_examples (OneHotSeq [NumE (FloatV (1 / 2)), NumE (IntV 2)])
              = Some [1 / 2, 2]"
    by (simp add: astype_float32_def f32_examples_def)
  have r2: "one_hot_rejected [1 / 2, 2]"
    by (simp add: one_hot_rejected_def)
  have e1: "parse_validate_one_hot f32_examples (OneHotStr ''0110'')
              = Inr [IntV 0, IntV 1, IntV 1, IntV 0]"
    by (simp add: parse_validate_one_hot_def f32_examples_def is_int_array_def int32_def trunc_def)
  note T1 = parse_validate_one_hot_raises
    [of f32_examples "OneHotStr ''0110''", unfolded a1 option.case, THEN conjunct1]
  note T2 = parse_validate_one_hot_raises
    [of f32_examples "OneHotSeq [NumE (FloatV (1 / 2)), NumE (IntV 2)]", unfolded a2 option.case,
      THEN conjunct1]
  note c1 = T1 [THEN conjunct2, rule_format, OF n1]
  note c2 = T2 [THEN conjunct1, THEN iffD2, OF r2]
  show ?thesis
    by (intro conjI a1 n1 c1 e1 a2 r2 c2)
qed

text \<open>
  The claim C5 as stated fails on the string \<^verbatim>\<open>"a"\<close>: the conversion to numbers fails, so
  there are no values after it of which the condition of the claim could hold, and the
  function raises \<^verbatim>\<open>ValueError\<close>.
\<close>

theorem parse_validate_one_hot_raises_counterexample:
  "parse_validate_one_hot f32_examples (OneHotStr ''a'') = Inl ValueError
   \<and> astype_float32 f32_examples (OneHotStr ''a'') = None"
  by (simp add: parse_validate_one_hot_def astype_float32_def f32_examples_def)

section \<open>Construction from a list of records: the labels\<close>

lemma one_hot_part_labels:
  "one_hot_part f32 (st\<lparr>l_labels := L\<rparr>) r =
     map_sum id (\<lambda>s. s\<lparr>l_labels := L\<rparr>) (one_hot_part f32 st r)"
  by (auto simp add: one_hot_part_def Let_def split: option.splits sum.splits)

lemma one_hot_part_has_labels:
  "one_hot_part f32 st r = Inr st' \<Longrightarrow> has_labels st' = has_labels st \<and> l_labels st' = l_labels st"
  by (auto simp add: one_hot_part_def Let_def split: option.splits sum.splits if_splits)

lemma label_part_after_false:
  assumes "has_labels st = Some False"
  shows "label_part st r = (if label_key r = None then Inr st else Inl ValueError)"
proof -
  have "st\<lparr>has_labels := Some False\<rparr> = st" using assms by simp
  then show ?thesis using assms by (simp add: label_part_def Let_def split: option.splits)
qed


lemma loop_body_after_false:
  assumes "has_labels st = Some False"
  shows "loop_body pvc f32 (st\<lparr>l_labels := L\<rparr>) r =
           map_sum id (\<lambda>s. s\<lparr>l_labels := L\<rparr>) (loop_body pvc f32 st r)"
    and "loop_body pvc f32 st r = Inr st' \<Longrightarrow>
           has_labels st' = Some False \<and> label_key r = None \<and> l_labels st' = l_labels st"
proof -
  have upd: "(st\<lparr>l_labels := L\<rparr>)\<lparr>l_colors := cs\<rparr> = (st\<lparr>l_colors := cs\<rparr>)\<lparr>l_labels := L\<rparr>" for cs
    by simp
  show "loop_body pvc f32 (st\<lparr>l_labels := L\<rparr>) r =
           map_sum id (\<lambda>s. s\<lparr>l_labels := L\<rparr>) (loop_body pvc f32 st r)"
    using assms
    by (auto simp add: loop_body_def upd one_hot_part_labels label_part_after_false
          dest!: one_hot_part_has_labels
          simp del: locals.update_convs split: option.splits sum.splits)
  show "has_labels st' = Some False \<and> label_key r = None \<and> l_labels st' = l_labels st"
    if "loop_body pvc f32 st r = Inr st'"
    using that assms
    by (auto simp add: loop_body_def label_part_after_false
          dest!: one_hot_part_has_labels split: option.splits sum.splits if_splits)
qed


lemma loop_after_false:
  assumes "has_labels st = Some False"
  shows "loop pvc f32 (st\<lparr>l_labels := L\<rparr>) recs =
           map_sum id (\<lambda>s. s\<lparr>l_labels := L\<rparr>) (loop pvc f32 st recs)"
  using assms
proof (induction recs arbitrary: st)
  case Nil
  then show ?case by simp
next
  case (Cons r recs)
  show ?case
  proof (cases "loop_body pvc f32 st r")
    case (Inl e)
    then show ?thesis
      by (simp add: loop_body_after_false(1) [OF Cons.prems])
  next
    case (Inr st1)
    then have "has_labels st1 = Some False"
      using loop_body_after_false(2) [OF Cons.prems] by blast
    from Cons.IH [OF this] Inr show ?thesis
      by (simp add: loop_body_after_false(1) [OF Cons.prems])
  qed
qed

lemma loop_after_false_result:
  assumes "has_labels st = Some False" and "loop pvc f32 st recs = Inr st'"
  shows "(\<forall>r \<in> set recs. label_key r = None) \<and> l_labels st' = l_labels st"
  using assms
proof (induction recs arbitrary: st)
  case Nil
  then show ?case by simp
next
  case (Cons r recs)
  from Cons.prems(2) obtain st1 where b: "loop_body pvc f32 st r = Inr st1"
    and l: "loop pvc f32 st1 recs = Inr st'"
    by (auto split: sum.splits)
  from loop_body_after_false(2) [OF Cons.prems(1) b]
  have "has_labels st1 = Some False" "label_key r = None" "l_labels st1 = l_labels st"
    by simp_all
  with Cons.IH [OF _ l] show ?case by simp
qed

lemma record_labels_none: "\<forall>r \<in> set recs. label_key r = None \<Longrightarrow> record_labels recs = []"
  by (simp add: record_labels_def filter_empty_conv)

lemma record_labels_Cons:
  "record_labels (r # recs) =
     (case label_key r of None \<Rightarrow> record_labels recs | Some name \<Rightarrow> name # record_labels recs)"
  by (simp add: record_labels_def split: option.splits)

lemma loop_body_no_label:
  assumes "label_key r = None" and "loop_body pvc f32 st r = Inr st'"
  shows "has_labels st' = Some False \<and> l_labels st' = l_labels st"
  using assms
  by (auto simp add: loop_body_def label_part_def
        dest!: one_hot_part_has_labels split: option.splits sum.splits)

lemma loop_body_no_label_frame:
  assumes "label_key r = None"
  shows "loop_body pvc f32 (st\<lparr>l_labels := L\<rparr>) r =
           map_sum id (\<lambda>s. s\<lparr>l_labels := L\<rparr>) (loop_body pvc f32 st r)"
proof -
  have upd: "(st\<lparr>l_labels := L\<rparr>)\<lparr>l_colors := cs\<rparr> = (st\<lparr>l_colors := cs\<rparr>)\<lparr>l_labels := L\<rparr>" for cs
    by simp
  show ?thesis
    using assms
    by (auto simp add: loop_body_def upd one_hot_part_labels label_part_def
          simp del: locals.update_convs split: option.splits sum.splits)
qed

lemma loop_body_first_label:
  assumes "has_labels st = None" and "label_key r = Some name"
  shows "loop_body pvc f32 (st\<lparr>l_labels := L\<rparr>) r = loop_body pvc f32 (st\<lparr>l_labels := L'\<rparr>) r"
    and "loop_body pvc f32 st r = Inr st' \<Longrightarrow> has_labels st' = Some True \<and> l_labels st' = Some [name]"
proof -
  have upd: "(st\<lparr>l_labels := X\<rparr>)\<lparr>l_colors := cs\<rparr> = (st\<lparr>l_colors := cs\<rparr>)\<lparr>l_labels := X\<rparr>" for cs X
    by simp
  have lp: "label_part (s\<lparr>l_labels := X\<rparr>) r = Inr (s\<lparr>has_labels := Some True, l_labels := Some [name]\<rparr>)"
    if "has_labels s = None" for s X
    using that assms(2) by (simp add: label_part_def)
  have hl: "has_labels s = None" if "one_hot_part f32 (st\<lparr>l_colors := cs\<rparr>) r = Inr s" for s cs
    using one_hot_part_has_labels [OF that] assms(1) by simp
  have body: "loop_body pvc f32 (st\<lparr>l_labels := X\<rparr>) r =
      (case color_key r of
         None \<Rightarrow> Inl ValueError
       | Some c \<Rightarrow>
           (case pvc c of
              None \<Rightarrow> Inl ValueError
            | Some rgb \<Rightarrow>
                (case one_hot_part f32 (st\<lparr>l_colors := l_colors st @ [rgb]\<rparr>) r of
                   Inl e \<Rightarrow> Inl e
                 | Inr s \<Rightarrow> Inr (s\<lparr>has_labels := Some True, l_labels := Some [name]\<rparr>))))" for X
  proof (cases "color_key r")
    case None
    then show ?thesis by (simp add: loop_body_def)
  next
    case c: (Some c)
    show ?thesis
    proof (cases "pvc c")
      case None
      with c show ?thesis by (simp add: loop_body_def)
    next
      case (Some rgb)
      show ?thesis
      proof (cases "one_hot_part f32 (st\<lparr>l_colors := l_colors st @ [rgb]\<rparr>) r")
        case (Inl e)
        with c Some show ?thesis
          by (simp add: loop_body_def upd one_hot_part_labels del: locals.update_convs)
      next
        case (Inr s)
        with c Some show ?thesis
          by (simp add: loop_body_def upd one_hot_part_labels lp [OF hl [OF Inr]]
                del: locals.update_convs)
      qed
    qed
  qed
  show "loop_body pvc f32 (st\<lparr>l_labels := L\<rparr>) r = loop_body pvc f32 (st\<lparr>l_labels := L'\<rparr>) r"
    by (simp only: body)
  show "has_labels st' = Some True \<and> l_labels st' = Some [name]"
    if "loop_body pvc f32 st r = Inr st'"
    using that assms
    by (auto simp add: loop_body_def label_part_def
          dest!: one_hot_part_has_labels split: option.splits sum.splits)
qed

lemma loop_body_next_label:
  assumes "has_labels st = Some True" and "l_labels st = Some acc"
    and "loop_body pvc f32 st r = Inr st'"
  shows "(case label_key r of
            None \<Rightarrow> has_labels st' = Some False \<and> l_labels st' = Some acc
          | Some name \<Rightarrow> has_labels st' = Some True \<and> l_labels st' = Some (acc @ [name]))"
  using assms
  by (auto simp add: loop_body_def label_part_def
        dest!: one_hot_part_has_labels split: option.splits sum.splits)

lemma loop_collects_labels:
  assumes "has_labels st = Some True" and "l_labels st = Some acc"
    and "loop pvc f32 st recs = Inr st'"
  shows "l_labels st' = Some (acc @ record_labels recs)"
  using assms
proof (induction recs arbitrary: st acc)
  case Nil
  then show ?case by (simp add: record_labels_def)
next
  case (Cons r recs)
  from Cons.prems(3) obtain st1 where b: "loop_body pvc f32 st r = Inr st1"
    and l: "loop pvc f32 st1 recs = Inr st'"
    by (auto split: sum.splits)
  note step = loop_body_next_label [OF Cons.prems(1,2) b]
  show ?case
  proof (cases "label_key r")
    case None
    with step have f: "has_labels st1 = Some False" and a: "l_labels st1 = Some acc" by simp_all
    from loop_after_false_result [OF f l] a None show ?thesis
      by (simp add: record_labels_Cons record_labels_none)
  next
    case (Some name)
    with step have t: "has_labels st1 = Some True" and a: "l_labels st1 = Some (acc @ [name])"
      by simp_all
    from Cons.IH [OF t a l] Some show ?thesis
      by (simp add: record_labels_Cons)
  qed
qed


lemma from_list_labels_ignored:
  assumes "\<exists>r \<in> set recs. label_key r \<noteq> None"
  shows "loop pvc f32
           \<lparr>l_colors = [], l_one_hot_encoding = None, l_labels = ls,
            has_one_hot = None, has_labels = None, one_hot_size = None\<rparr> recs =
         loop pvc f32
           \<lparr>l_colors = [], l_one_hot_encoding = None, l_labels = ls',
            has_one_hot = None, has_labels = None, one_hot_size = None\<rparr> recs"
proof -
  define s0 where "s0 = \<lparr>l_colors = [], l_one_hot_encoding = None, l_labels = None,
            has_one_hot = None, has_labels = None, one_hot_size = (None :: nat option)\<rparr>"
  have s0: "\<lparr>l_colors = [], l_one_hot_encoding = None, l_labels = X,
            has_one_hot = None, has_labels = None, one_hot_size = None\<rparr> = s0\<lparr>l_labels := X\<rparr>" for X
    by (simp add: s0_def)
  have h0: "has_labels s0 = None" by (simp add: s0_def)
  from assms obtain r rest where recs: "recs = r # rest"
    by (cases recs) auto
  have "loop pvc f32 (s0\<lparr>l_labels := ls\<rparr>) (r # rest) = loop pvc f32 (s0\<lparr>l_labels := ls'\<rparr>) (r # rest)"
  proof (cases "label_key r")
    case (Some name)
    have "loop_body pvc f32 (s0\<lparr>l_labels := ls\<rparr>) r = loop_body pvc f32 (s0\<lparr>l_labels := ls'\<rparr>) r"
      by (rule loop_body_first_label(1) [OF h0 Some])
    then show ?thesis
      by (simp del: locals.update_convs)
  next
    case None
    with assms recs have later: "\<exists>r \<in> set rest. label_key r \<noteq> None" by auto
    have frame: "loop_body pvc f32 (s0\<lparr>l_labels := X\<rparr>) r =
           map_sum id (\<lambda>s. s\<lparr>l_labels := X\<rparr>) (loop_body pvc f32 s0 r)" for X
      by (rule loop_body_no_label_frame [OF None])
    show ?thesis
    proof (cases "loop_body pvc f32 s0 r")
      case (Inl e)
      then show ?thesis by (simp add: frame del: locals.update_convs)
    next
      case (Inr s1)
      from loop_body_no_label [OF None Inr] have f: "has_labels s1 = Some False" by simp
      have "\<exists>e. loop pvc f32 s1 rest = Inl e"
      proof (rule ccontr)
        assume "\<not> (\<exists>e. loop pvc f32 s1 rest = Inl e)"
        then obtain st' where "loop pvc f32 s1 rest = Inr st'"
          by (cases "loop pvc f32 s1 rest") auto
        from loop_after_false_result [OF f this] have "\<forall>r \<in> set rest. label_key r = None"
          by simp
        with later show False by simp
      qed
      then obtain e where "loop pvc f32 s1 rest = Inl e" ..
      with Inr show ?thesis
        by (simp add: frame loop_after_false [OF f] del: locals.update_convs)
    qed
  qed
  then show ?thesis by (simp only: s0 recs)
qed

lemma from_list_labels_collected:
  assumes "\<exists>r \<in> set recs. label_key r \<noteq> None"
    and "loop pvc f32
           \<lparr>l_colors = [], l_one_hot_encoding = None, l_labels = ls,
            has_one_hot = None, has_labels = None, one_hot_size = None\<rparr> recs = Inr st'"
  shows "l_labels st' = Some (record_labels recs)"
proof -
  define s0 where "s0 = \<lparr>l_colors = [], l_one_hot_encoding = None, l_labels = ls,
            has_one_hot = None, has_labels = None, one_hot_size = (None :: nat option)\<rparr>"
  have h0: "has_labels s0 = None" by (simp add: s0_def)
  from assms(1) obtain r rest where recs: "recs = r # rest"
    by (cases recs) auto
  from assms(2) obtain s1 where b: "loop_body pvc f32 s0 r = Inr s1"
    and l: "loop pvc f32 s1 rest = Inr st'"
    by (auto simp add: recs s0_def split: sum.splits)
  show ?thesis
  proof (cases "label_key r")
    case None
    from loop_body_no_label [OF None b] have f: "has_labels s1 = Some False" by simp
    from loop_after_false_result [OF f l] None assms(1) recs show ?thesis by auto
  next
    case (Some name)
    from loop_body_first_label(2) [OF h0 Some b]
    have t: "has_labels s1 = Some True" and a: "l_labels s1 = Some [name]" by simp_all
    from loop_collects_labels [OF t a l] Some show ?thesis
      by (simp add: recs record_labels_Cons)
  qed
qed

lemma from_list_labels_kept:
  assumes "\<forall>r \<in> set recs. label_key r = None"
    and "loop pvc f32
           \<lparr>l_colors = [], l_one_hot_encoding = None, l_labels = ls,
            has_one_hot = None, has_labels = None, one_hot_size = None\<rparr> recs = Inr st'"
  shows "l_labels st' = ls"
proof (cases recs)
  case Nil
  with assms(2) show ?thesis by auto
next
  case (Cons r rest)
  from assms(2) obtain s1 where b: "loop_body pvc f32
           \<lparr>l_colors = [], l_one_hot_encoding = None, l_labels = ls,
            has_one_hot = None, has_labels = None, one_hot_size = None\<rparr> r = Inr s1"
    and l: "loop pvc f32 s1 rest = Inr st'"
    by (auto simp add: Cons split: sum.splits)
  from assms(1) Cons have n: "label_key r = None" by simp
  from loop_body_no_label [OF n b] have f: "has_labels s1 = Some False" and a: "l_labels s1 = ls"
    by simp_all
  from loop_after_false_result [OF f l] a show ?thesis by simp
qed

text \<open>
  Claim C10: when at least one record has a \<^verbatim>\<open>"label"\<close> key, the result of
  \<open>from_list_of_color_labels\<close> is the same for every \<^verbatim>\<open>labels\<close> argument, and the labels
  of a returned mapping are the names collected from the records, in order; when no record
  has the key, the labels of a returned mapping are the \<^verbatim>\<open>labels\<close> argument.
\<close>

theorem from_list_labels:
  "((\<exists>r \<in> set recs. label_key r \<noteq> None) \<longrightarrow>
      from_list_of_color_labels pvc f32 recs ls = from_list_of_color_labels pvc f32 recs ls'
      \<and> (\<forall>m. from_list_of_color_labels pvc f32 recs ls = Inr m \<longrightarrow>
             labels m = Some (record_labels recs)))
   \<and> ((\<forall>r \<in> set recs. label_key r = None) \<longrightarrow>
      (\<forall>m. from_list_of_color_labels pvc f32 recs ls = Inr m \<longrightarrow> labels m = ls))"
proof (intro conjI impI allI)
  assume some: "\<exists>r \<in> set recs. label_key r \<noteq> None"
  show "from_list_of_color_labels pvc f32 recs ls = from_list_of_color_labels pvc f32 recs ls'"
    unfolding from_list_of_color_labels_def
    by (simp only: from_list_labels_ignored [OF some, where ls = ls and ls' = ls'])
  fix m assume "from_list_of_color_labels pvc f32 recs ls = Inr m"
  then obtain st' where l: "loop pvc f32
           \<lparr>l_colors = [], l_one_hot_encoding = None, l_labels = ls,
            has_one_hot = None, has_labels = None, one_hot_size = None\<rparr> recs = Inr st'"
    and i: "ColorLabels_init (map TupleColor (l_colors st')) (l_one_hot_encoding st') (l_labels st')
              = Inr m"
    by (auto simp add: from_list_of_color_labels_def split: sum.splits)
  from init_fields [OF i] from_list_labels_collected [OF some l]
  show "labels m = Some (record_labels recs)" by simp
next
  fix m
  assume none: "\<forall>r \<in> set recs. label_key r = None"
    and "from_list_of_color_labels pvc f32 recs ls = Inr m"
  then obtain st' where l: "loop pvc f32
           \<lparr>l_colors = [], l_one_hot_encoding = None, l_labels = ls,
            has_one_hot = None, has_labels = None, one_hot_size = None\<rparr> recs = Inr st'"
    and i: "ColorLabels_init (map TupleColor (l_colors st')) (l_one_hot_encoding st') (l_labels st')
              = Inr m"
    by (auto simp add: from_list_of_color_labels_def split: sum.splits)
  from init_fields [OF i] from_list_labels_kept [OF none l]
  show "labels m = ls" by simp
qed


theorem from_list_labels_witness:
  "(\<exists>r \<in> set [\<lparr>color_key = Some (ColorTuple 0 0 0), one_hot_key = None, label_key = Some ''bg''\<rparr>,
                 \<lparr>color_key = Some (ColorTuple 255 0 0), one_hot_key = None, label_key = Some ''red''\<rparr>].
       label_key r \<noteq> None)
   \<and> from_list_of_color_labels (parse_and_validate_color Map.empty) f32_examples
         [\<lparr>color_key = Some (ColorTuple 0 0 0), one_hot_key = None, label_key = Some ''bg''\<rparr>,
          \<lparr>color_key = Some (ColorTuple 255 0 0), one_hot_key = None, label_key = Some ''red''\<rparr>]
         (Some [''x'', ''y''])
       = from_list_of_color_labels (parse_and_validate_color Map.empty) f32_examples
         [\<lparr>color_key = Some (ColorTuple 0 0 0), one_hot_key = None, label_key = Some ''bg''\<rparr>,
          \<lparr>color_key = Some (ColorTuple 255 0 0), one_hot_key = None, label_key = Some ''red''\<rparr>]
         None
   \<and> from_list_of_color_labels (parse_and_validate_color Map.empty) f32_examples
         [\<lparr>color_key = Some (ColorTuple 0 0 0), one_hot_key = None, label_key = Some ''bg''\<rparr>,
          \<lparr>color_key = Some (ColorTuple 255 0 0), one_hot_key = None, label_key = Some ''red''\<rparr>]
         (Some [''x'', ''y''])
       = Inr \<lparr>colors = [TupleColor (0, 0, 0), TupleColor (255, 0, 0)], one_hot_encoding = None,
              labels = Some [''bg'', ''red''], log_labels = Some [''bg'', ''red'']\<rparr>
   \<and> labels \<lparr>colors = [TupleColor (0, 0, 0), TupleColor (255, 0, 0)], one_hot_encoding = None,
              labels = Some [''bg'', ''red''], log_labels = Some [''bg'', ''red'']\<rparr>
       = Some (record_labels
           [\<lparr>color_key = Some (ColorTuple 0 0 0), one_hot_key = None, label_key = Some ''bg''\<rparr>,
            \<lparr>color_key = Some (ColorTuple 255 0 0), one_hot_key = None, label_key = Some ''red''\<rparr>])
   \<and> from_list_of_color_labels (parse_and_validate_color Map.empty) f32_examples
         [\<lparr>color_key = Some (ColorTuple 0 0 0), one_hot_key = None, label_key = None\<rparr>,
          \<lparr>color_key = Some (ColorTuple 255 0 0), one_hot_key = None, label_key = None\<rparr>]
         (Some [''x'', ''y''])
       = Inr \<lparr>colors = [TupleColor (0, 0, 0), TupleColor (255, 0, 0)], one_hot_encoding = None,
              labels = Some [''x'', ''y''], log_labels = Some [''x'', ''y'']\<rparr>
   \<and> labels \<lparr>colors = [TupleColor (0, 0, 0), TupleColor (255, 0, 0)], one_hot_encoding = None,
              labels = Some [''x'', ''y''], log_labels = Some [''x'', ''y'']\<rparr>
       = Some [''x'', ''y'']"
proof -
  let ?pvc = "parse_and_validate_color Map.empty"
  let ?A = "[\<lparr>color_key = Some (ColorTuple 0 0 0), one_hot_key = None, label_key = Some ''bg''\<rparr>,
             \<lparr>color_key = Some (ColorTuple 255 0 0), one_hot_key = None, label_key = Some ''red''\<rparr>]"
  let ?B = "[\<lparr>color_key = Some (ColorTuple 0 0 0), one_hot_key = None, label_key = None\<rparr>,
             \<lparr>color_key = Some (ColorTuple 255 0 0), one_hot_key = None, label_key = None\<rparr>]"
  have hA: "\<exists>r \<in> set ?A. label_key r \<noteq> None" by simp
  have hB: "\<forall>r \<in> set ?B. label_key r = None" by simp
  have eA: "from_list_of_color_labels ?pvc f32_examples ?A (Some [''x'', ''y'']) =
      Inr \<lparr>colors = [TupleColor (0, 0, 0), TupleColor (255, 0, 0)], one_hot_encoding = None,
              labels = Some [''bg'', ''red''], log_labels = Some [''bg'', ''red'']\<rparr>"
    by code_simp
  have eB: "from_list_of_color_labels ?pvc f32_examples ?B (Some [''x'', ''y'']) =
      Inr \<lparr>colors = [TupleColor (0, 0, 0), TupleColor (255, 0, 0)], one_hot_encoding = None,
              labels = Some [''x'', ''y''], log_labels = Some [''x'', ''y'']\<rparr>"
    by code_simp
  note TA = from_list_labels [where recs = ?A and pvc = ?pvc and ?f32.0 = f32_examples
      and ls = "Some [''x'', ''y'']" and ls' = None, THEN conjunct1, THEN mp, OF hA]
  note TB = from_list_labels [where recs = ?B and pvc = ?pvc and ?f32.0 = f32_examples
      and ls = "Some [''x'', ''y'']" and ls' = None, THEN conjunct2, THEN mp, OF hB,
      THEN spec, THEN mp, OF eB]
  show ?thesis
    by (intro conjI hA TA [THEN conjunct1] eA TA [THEN conjunct2, THEN spec, THEN mp, OF eA] eB TB)
qed

section \<open>Construction from a list of records: the one-hot vectors\<close>

lemma parse_length:
  assumes "parse_validate_one_hot f32 v = Inr res"
  shows "\<exists>es. one_hot_elems v = Some es \<and> length res = length es"
  using assms
  by (auto simp add: parse_validate_one_hot_def split: option.splits if_splits
        dest: those_list_length)

lemma one_hot_part_error:
  assumes "one_hot_part f32 st r = Inl e" and "has_one_hot st = Some True \<longrightarrow> l_one_hot_encoding st \<noteq> None"
  shows "e = ValueError"
  using assms
  by (auto simp add: one_hot_part_def Let_def
        split: option.splits sum.splits if_splits dest: parse_error_kind)

lemma one_hot_part_result:
  assumes "one_hot_part f32 st r = Inr st'"
  shows "l_colors st' = l_colors st \<and> has_one_hot st' \<noteq> None
         \<and> (has_one_hot st' = Some True \<longrightarrow> l_one_hot_encoding st' \<noteq> None)
         \<and> (case one_hot_key r of
               None \<Rightarrow> l_one_hot_encoding st' = l_one_hot_encoding st
                         \<and> one_hot_size st' = one_hot_size st
             | Some v \<Rightarrow>
                 has_one_hot st \<noteq> Some False
                 \<and> (\<exists>one_hot. parse_validate_one_hot f32 v = Inr one_hot
                       \<and> one_hot_size st' = Some (length one_hot)
                       \<and> (one_hot_size st \<noteq> None \<longrightarrow> one_hot_size st' = one_hot_size st)
                       \<and> l_one_hot_encoding st' =
                           Some ((if has_one_hot st = None then []
                                  else rows_of (l_one_hot_encoding st)) @ [one_hot])))"
  using assms
  by (auto simp add: one_hot_part_def Let_def split: option.splits sum.splits if_splits)

lemma label_part_error:
  assumes "label_part st r = Inl e" and "has_labels st = Some True \<longrightarrow> l_labels st \<noteq> None"
  shows "e = ValueError"
  using assms
  by (auto simp add: label_part_def Let_def split: option.splits if_splits)

lemma label_part_result:
  assumes "label_part st r = Inr st'"
  shows "l_colors st' = l_colors st \<and> has_one_hot st' = has_one_hot st
         \<and> l_one_hot_encoding st' = l_one_hot_encoding st \<and> one_hot_size st' = one_hot_size st
         \<and> (has_labels st' = Some True \<longrightarrow> l_labels st' \<noteq> None)"
  using assms
  by (auto simp add: label_part_def Let_def split: option.splits if_splits)


lemma loop_body_error:
  assumes "loop_body pvc f32 st r = Inl e" and "locals_ok st"
  shows "e = ValueError"
proof (cases "color_key r")
  case None
  with assms(1) show ?thesis by (simp add: loop_body_def)
next
  case c: (Some c)
  show ?thesis
  proof (cases "pvc c")
    case None
    with c assms(1) show ?thesis by (simp add: loop_body_def)
  next
    case (Some rgb)
    let ?st = "st\<lparr>l_colors := l_colors st @ [rgb]\<rparr>"
    have ok: "has_one_hot ?st = Some True \<longrightarrow> l_one_hot_encoding ?st \<noteq> None"
      using assms(2) by (simp add: locals_ok_def)
    show ?thesis
    proof (cases "one_hot_part f32 ?st r")
      case (Inl e')
      with c Some assms(1) have "e = e'" by (simp add: loop_body_def)
      with one_hot_part_error [OF Inl ok] show ?thesis by simp
    next
      case (Inr s)
      with c Some assms(1) have l: "label_part s r = Inl e" by (simp add: loop_body_def)
      have "has_labels s = Some True \<longrightarrow> l_labels s \<noteq> None"
        using one_hot_part_has_labels [OF Inr] assms(2) by (simp add: locals_ok_def)
      from label_part_error [OF l this] show ?thesis .
    qed
  qed
qed

lemma loop_body_result:
  assumes "loop_body pvc f32 st r = Inr st'"
  shows "length (l_colors st') = Suc (length (l_colors st)) \<and> has_one_hot st' \<noteq> None
         \<and> locals_ok st'
         \<and> (case one_hot_key r of
               None \<Rightarrow> l_one_hot_encoding st' = l_one_hot_encoding st
                         \<and> one_hot_size st' = one_hot_size st
             | Some v \<Rightarrow>
                 has_one_hot st \<noteq> Some False
                 \<and> (\<exists>one_hot. parse_validate_one_hot f32 v = Inr one_hot
                       \<and> one_hot_size st' = Some (length one_hot)
                       \<and> (one_hot_size st \<noteq> None \<longrightarrow> one_hot_size st' = one_hot_size st)
                       \<and> l_one_hot_encoding st' =
                           Some ((if has_one_hot st = None then []
                                  else rows_of (l_one_hot_encoding st)) @ [one_hot])))"
proof -
  from assms obtain c rgb s where c: "color_key r = Some c" "pvc c = Some rgb"
    and o: "one_hot_part f32 (st\<lparr>l_colors := l_colors st @ [rgb]\<rparr>) r = Inr s"
    and l: "label_part s r = Inr st'"
    by (auto simp add: loop_body_def split: option.splits sum.splits)
  note O = one_hot_part_result [OF o]
  note L = label_part_result [OF l]
  have "locals_ok st'"
    using O L by (simp add: locals_ok_def)
  moreover have "length (l_colors st') = Suc (length (l_colors st))"
    using O L by simp
  moreover have "has_one_hot st' \<noteq> None"
    using O L by simp
  ultimately show ?thesis
    using O L by (auto split: option.splits)
qed

lemma loop_error:
  assumes "loop pvc f32 st recs = Inl e" and "locals_ok st"
  shows "e = ValueError"
  using assms
proof (induction recs arbitrary: st)
  case Nil
  then show ?case by simp
next
  case (Cons r recs)
  show ?case
  proof (cases "loop_body pvc f32 st r")
    case (Inl e')
    with Cons.prems(1) have "e = e'" by simp
    with loop_body_error [OF Inl Cons.prems(2)] show ?thesis by simp
  next
    case (Inr st1)
    with Cons.prems(1) have "loop pvc f32 st1 recs = Inl e" by simp
    moreover have "locals_ok st1" using loop_body_result [OF Inr] by simp
    ultimately show ?thesis by (rule Cons.IH)
  qed
qed

lemma loop_counts:
  assumes "loop pvc f32 st recs = Inr st'"
    and "has_one_hot st = None \<longrightarrow> l_one_hot_encoding st = None"
  shows "length (l_colors st') = length (l_colors st) + length recs
         \<and> length (rows_of (l_one_hot_encoding st')) =
             length (rows_of (l_one_hot_encoding st))
               + length (filter (\<lambda>r. one_hot_key r \<noteq> None) recs)"
  using assms
proof (induction recs arbitrary: st)
  case Nil
  then show ?case by simp
next
  case (Cons r recs)
  from Cons.prems(1) obtain st1 where b: "loop_body pvc f32 st r = Inr st1"
    and l: "loop pvc f32 st1 recs = Inr st'"
    by (auto split: sum.splits)
  note B = loop_body_result [OF b]
  have g: "has_one_hot st1 = None \<longrightarrow> l_one_hot_encoding st1 = None"
    using B by blast
  note IH = Cons.IH [OF l g]
  have rows: "length (rows_of (l_one_hot_encoding st1)) =
      length (rows_of (l_one_hot_encoding st)) + (if one_hot_key r \<noteq> None then 1 else 0)"
    using B Cons.prems(2) by (auto split: option.splits)
  show ?case
    using IH B rows by simp
qed

lemma loop_sizes:
  assumes "loop pvc f32 st recs = Inr st'"
  shows "(one_hot_size st \<noteq> None \<longrightarrow> one_hot_size st' = one_hot_size st)
         \<and> (\<forall>r \<in> set recs. \<forall>v. one_hot_key r = Some v \<longrightarrow>
               (\<exists>one_hot. parse_validate_one_hot f32 v = Inr one_hot
                  \<and> one_hot_size st' = Some (length one_hot)))"
  using assms
proof (induction recs arbitrary: st)
  case Nil
  then show ?case by simp
next
  case (Cons r recs)
  from Cons.prems(1) obtain st1 where b: "loop_body pvc f32 st r = Inr st1"
    and l: "loop pvc f32 st1 recs = Inr st'"
    by (auto split: sum.splits)
  note B = loop_body_result [OF b]
  note IH = Cons.IH [OF l]
  have keep: "one_hot_size st \<noteq> None \<longrightarrow> one_hot_size st1 = one_hot_size st"
    using B by (auto split: option.splits)
  have first: "\<exists>one_hot. parse_validate_one_hot f32 v = Inr one_hot
                  \<and> one_hot_size st' = Some (length one_hot)" if "one_hot_key r = Some v" for v
  proof -
    from B that obtain one_hot where p: "parse_validate_one_hot f32 v = Inr one_hot"
      and s: "one_hot_size st1 = Some (length one_hot)"
      by auto
    from IH s have "one_hot_size st' = Some (length one_hot)" by simp
    with p show ?thesis by blast
  qed
  show ?case
    using IH keep first by auto
qed


lemma init_rows_error:
  assumes "rows \<noteq> []" and "length rows \<noteq> length cs"
  shows "ColorLabels_init cs (Some rows) ls = Inl ValueError"
  using assms by (simp add: ColorLabels_init_def)

text \<open>
  Claim C2: when some record of the list has a one-hot vector and another record has none
  (in either order), or when two records have one-hot vectors of different lengths,
  \<open>from_list_of_color_labels\<close> raises \<^verbatim>\<open>ValueError\<close>. The error comes from the loop,
  from \<open>parse_validate_one_hot\<close>, from the colour parser, or from the constructor, which
  finds fewer one-hot rows than colours.
\<close>

theorem from_list_one_hot_inconsistent:
  assumes "(\<exists>r1 \<in> set recs. \<exists>r2 \<in> set recs. one_hot_key r1 \<noteq> None \<and> one_hot_key r2 = None)
           \<or> (\<exists>r1 \<in> set recs. \<exists>r2 \<in> set recs. \<exists>v1 v2 es1 es2.
                 one_hot_key r1 = Some v1 \<and> one_hot_key r2 = Some v2
                 \<and> one_hot_elems v1 = Some es1 \<and> one_hot_elems v2 = Some es2
                 \<and> length es1 \<noteq> length es2)"
  shows "from_list_of_color_labels pvc f32 recs ls = Inl ValueError"
proof -
  define s0 where "s0 = \<lparr>l_colors = [], l_one_hot_encoding = None, l_labels = ls,
            has_one_hot = None, has_labels = None, one_hot_size = (None :: nat option)\<rparr>"
  have ok: "locals_ok s0" by (simp add: s0_def locals_ok_def)
  have def: "from_list_of_color_labels pvc f32 recs ls =
      (case loop pvc f32 s0 recs of
         Inl e \<Rightarrow> Inl e
       | Inr st \<Rightarrow>
           ColorLabels_init (map TupleColor (l_colors st)) (l_one_hot_encoding st) (l_labels st))"
    by (simp add: from_list_of_color_labels_def s0_def)
  show ?thesis
  proof (cases "loop pvc f32 s0 recs")
    case (Inl e)
    with loop_error [OF Inl ok] show ?thesis by (simp add: def)
  next
    case (Inr st)
    have g: "has_one_hot s0 = None \<longrightarrow> l_one_hot_encoding s0 = None" by (simp add: s0_def)
    from loop_counts [OF Inr g]
    have cols: "length (l_colors st) = length recs"
      and rows: "length (rows_of (l_one_hot_encoding st)) =
                   length (filter (\<lambda>r. one_hot_key r \<noteq> None) recs)"
      by (simp_all add: s0_def)
    from assms show ?thesis
    proof
      assume "\<exists>r1 \<in> set recs. \<exists>r2 \<in> set recs. one_hot_key r1 \<noteq> None \<and> one_hot_key r2 = None"
      then obtain r1 r2 where r1: "r1 \<in> set recs" "one_hot_key r1 \<noteq> None"
        and r2: "r2 \<in> set recs" "one_hot_key r2 = None"
        by blast
      from r1 have "filter (\<lambda>r. one_hot_key r \<noteq> None) recs \<noteq> []"
        by (auto simp add: filter_empty_conv)
      then have pos: "rows_of (l_one_hot_encoding st) \<noteq> []"
        using rows by (metis length_0_conv)
      from r2 have "length (filter (\<lambda>r. one_hot_key r \<noteq> None) recs) < length recs"
        by (intro length_filter_less [of r2]) simp_all
      then have less: "length (rows_of (l_one_hot_encoding st)) \<noteq> length (l_colors st)"
        using rows cols by simp
      from pos obtain rws where some: "l_one_hot_encoding st = Some rws"
        by (cases "l_one_hot_encoding st") auto
      with pos less have "rws \<noteq> []" "length rws \<noteq> length (map TupleColor (l_colors st))"
        by simp_all
      then have "ColorLabels_init (map TupleColor (l_colors st)) (Some rws) (l_labels st)
                   = Inl ValueError"
        by (rule init_rows_error)
      with Inr some show ?thesis by (simp add: def)
    next
      assume "\<exists>r1 \<in> set recs. \<exists>r2 \<in> set recs. \<exists>v1 v2 es1 es2.
                 one_hot_key r1 = Some v1 \<and> one_hot_key r2 = Some v2
                 \<and> one_hot_elems v1 = Some es1 \<and> one_hot_elems v2 = Some es2
                 \<and> length es1 \<noteq> length es2"
      then obtain r1 r2 v1 v2 es1 es2 where r1: "r1 \<in> set recs" "one_hot_key r1 = Some v1"
        and r2: "r2 \<in> set recs" "one_hot_key r2 = Some v2"
        and es: "one_hot_elems v1 = Some es1" "one_hot_elems v2 = Some es2"
        and ne: "length es1 \<noteq> length es2"
        by blast
      note S = loop_sizes [OF Inr, THEN conjunct2]
      from S r1 obtain oh1 where p1: "parse_validate_one_hot f32 v1 = Inr oh1"
        and s1: "one_hot_size st = Some (length oh1)" by blast
      from S r2 obtain oh2 where p2: "parse_validate_one_hot f32 v2 = Inr oh2"
        and s2: "one_hot_size st = Some (length oh2)" by blast
      from parse_length [OF p1] es(1) have "length oh1 = length es1" by simp
      moreover from parse_length [OF p2] es(2) have "length oh2 = length es2" by simp
      ultimately have False using s1 s2 ne by simp
      then show ?thesis ..
    qed
  qed
qed


theorem from_list_one_hot_inconsistent_witness:
  "one_hot_key \<lparr>color_key = Some (ColorTuple 0 0 0), one_hot_key = Some (OneHotStr ''01''), label_key = None\<rparr> \<noteq> None
   \<and> one_hot_key \<lparr>color_key = Some (ColorTuple 255 0 0), one_hot_key = None, label_key = None\<rparr> = None
   \<and> from_list_of_color_labels (parse_and_validate_color Map.empty) f32_examples
         [\<lparr>color_key = Some (ColorTuple 0 0 0), one_hot_key = Some (OneHotStr ''01''), label_key = None\<rparr>,
          \<lparr>color_key = Some (ColorTuple 255 0 0), one_hot_key = None, label_key = None\<rparr>] None = Inl ValueError
   \<and> from_list_of_color_labels (parse_and_validate_color Map.empty) f32_examples
         [\<lparr>color_key = Some (ColorTuple 255 0 0), one_hot_key = None, label_key = None\<rparr>,
          \<lparr>color_key = Some (ColorTuple 0 0 0), one_hot_key = Some (OneHotStr ''01''), label_key = None\<rparr>] None = Inl ValueError
   \<and> one_hot_elems (OneHotStr ''01'') = Some [StrE ''0'', StrE ''1'']
   \<and> one_hot_elems (OneHotSeq [NumE (IntV 0), NumE (IntV 1), NumE (IntV 1)])
       = Some [NumE (IntV 0), NumE (IntV 1), NumE (IntV 1)]
   \<and> length [StrE ''0'', StrE ''1''] \<noteq> length [NumE (IntV 0), NumE (IntV 1), NumE (IntV 1)]
   \<and> from_list_of_color_labels (parse_and_validate_color Map.empty) f32_examples
         [\<lparr>color_key = Some (ColorTuple 0 0 0), one_hot_key = Some (OneHotStr ''01''), label_key = None\<rparr>,
          \<lparr>color_key = Some (ColorTuple 0 255 0), one_hot_key = Some (OneHotSeq [NumE (IntV 0), NumE (IntV 1), NumE (IntV 1)]), label_key = None\<rparr>] None = Inl ValueError"
proof -
  let ?H = "\<lparr>color_key = Some (ColorTuple 0 0 0), one_hot_key = Some (OneHotStr ''01''), label_key = None\<rparr>"
  let ?N = "\<lparr>color_key = Some (ColorTuple 255 0 0), one_hot_key = None, label_key = None\<rparr>"
  let ?L = "\<lparr>color_key = Some (ColorTuple 0 255 0), one_hot_key = Some (OneHotSeq [NumE (IntV 0), NumE (IntV 1), NumE (IntV 1)]), label_key = None\<rparr>"
  have k1: "one_hot_key ?H \<noteq> None" and k2: "one_hot_key ?N = None"
    by simp_all
  have e1: "one_hot_elems (OneHotStr ''01'') = Some [StrE ''0'', StrE ''1'']"
    and e2: "one_hot_elems (OneHotSeq [NumE (IntV 0), NumE (IntV 1), NumE (IntV 1)])
       = Some [NumE (IntV 0), NumE (IntV 1), NumE (IntV 1)]"
    and e3: "length [StrE ''0'', StrE ''1''] \<noteq> length [NumE (IntV 0), NumE (IntV 1), NumE (IntV 1)]"
    by simp_all
  have h1: "(\<exists>r1 \<in> set [?H, ?N]. \<exists>r2 \<in> set [?H, ?N]. one_hot_key r1 \<noteq> None \<and> one_hot_key r2 = None)
           \<or> (\<exists>r1 \<in> set [?H, ?N]. \<exists>r2 \<in> set [?H, ?N]. \<exists>v1 v2 es1 es2.
                 one_hot_key r1 = Some v1 \<and> one_hot_key r2 = Some v2
                 \<and> one_hot_elems v1 = Some es1 \<and> one_hot_elems v2 = Some es2
                 \<and> length es1 \<noteq> length es2)"
    by (rule disjI1) simp
  have h2: "(\<exists>r1 \<in> set [?N, ?H]. \<exists>r2 \<in> set [?N, ?H]. one_hot_key r1 \<noteq> None \<and> one_hot_key r2 = None)
           \<or> (\<exists>r1 \<in> set [?N, ?H]. \<exists>r2 \<in> set [?N, ?H]. \<exists>v1 v2 es1 es2.
                 one_hot_key r1 = Some v1 \<and> one_hot_key r2 = Some v2
                 \<and> one_hot_elems v1 = Some es1 \<and> one_hot_elems v2 = Some es2
                 \<and> length es1 \<noteq> length es2)"
    by (rule disjI1) simp
  have h3: "(\<exists>r1 \<in> set [?H, ?L]. \<exists>r2 \<in> set [?H, ?L]. one_hot_key r1 \<noteq> None \<and> one_hot_key r2 = None)
           \<or> (\<exists>r1 \<in> set [?H, ?L]. \<exists>r2 \<in> set [?H, ?L]. \<exists>v1 v2 es1 es2.
                 one_hot_key r1 = Some v1 \<and> one_hot_key r2 = Some v2
                 \<and> one_hot_elems v1 = Some es1 \<and> one_hot_elems v2 = Some es2
                 \<and> length es1 \<noteq> length es2)"
    by (rule disjI2) simp
  show ?thesis
    by (intro conjI k1 k2 e1 e2 e3
          from_list_one_hot_inconsistent [OF h1] from_list_one_hot_inconsistent [OF h2]
          from_list_one_hot_inconsistent [OF h3])
qed

section \<open>Filtering by colour: properties\<close>





text \<open>A mapping whose first colour is a list, as every mapping read from a JSON file has.\<close>

lemma filter_list_color:
  assumes "colors m = ListColor xs # cs"
  shows "from_filter_by_colors m S = Inl TypeError"
  using assms by (simp add: from_filter_by_colors_def upt_conv_Cons del: upt_Suc)




lemma num_classes_rows:
  "num_classes \<lparr>colors = cs, one_hot_encoding = ohe, labels = ls, log_labels = lg\<rparr> =
     (if truthy ohe then length (hd (rows_of ohe)) else length cs)"
  by (cases ohe) (auto simp add: num_classes_def split: list.splits)

lemma init_success:
  assumes "truthy ohe \<longrightarrow> length (rows_of ohe) = length cs \<and> rectangular (rows_of ohe)"
    and "truthy ls \<longrightarrow>
           length (rows_of ls) = (if truthy ohe then length (hd (rows_of ohe)) else length cs)"
  shows "\<exists>m. ColorLabels_init cs ohe ls = Inr m"
proof -
  have the_rows: "truthy x \<Longrightarrow> the x = rows_of x" for x :: "'a list option"
    by (cases x) simp_all
  have no_index: "\<not> (truthy ohe \<and> truthy ls
      \<and> (\<exists>idx \<in> set (empty_labels_indices (the ohe)). length (the ls) \<le> idx))"
    using assms(2) by (auto simp add: the_rows empty_labels_indices_def)
  show ?thesis
    using assms no_index
    by (auto simp add: ColorLabels_init_def Let_def num_classes_rows the_rows new_names_def)
qed

lemma init_valid:
  assumes "ColorLabels_init cs ohe ls = Inr m"
  shows "(truthy ohe \<longrightarrow> length (rows_of ohe) = length cs \<and> rectangular (rows_of ohe))
         \<and> (truthy ls \<longrightarrow>
              length (rows_of ls) = (if truthy ohe then length (hd (rows_of ohe)) else length cs))"
proof -
  have the_rows: "truthy x \<Longrightarrow> the x = rows_of x" for x :: "'a list option"
    by (cases x) simp_all
  show ?thesis
    using assms
    by (auto simp add: ColorLabels_init_def Let_def num_classes_rows the_rows split: if_splits)
qed









section \<open>JSON files: the round trip\<close>

lemma int32_channel: "0 \<le> r \<Longrightarrow> r \<le> 255 \<Longrightarrow> int32 r = r"
  by (simp add: int32_def signed_take_bit_int_eq_self)

lemma np_int32_value:
  assumes "num_val v = 0 \<or> num_val v = 1"
  shows "rat_of_int (np_int32 v) = num_val v"
proof (cases v)
  case (IntV i)
  with assms have "i = 0 \<or> i = 1" by simp
  then show ?thesis using IntV by (auto simp add: int32_def)
next
  case (FloatV q)
  with assms show ?thesis by (auto simp add: int32_def trunc_def)
qed

lemma json_colors_same:
  assumes "\<forall>c \<in> set cs. \<forall>x \<in> set (channels c). 0 \<le> x \<and> x \<le> 255"
  shows "map (\<lambda>c. map int32 (channels c)) cs = map channels cs"
  using assms by (auto simp add: int32_channel intro!: map_idI)

lemma json_colors_rectangular:
  assumes "\<forall>c \<in> set cs. length (channels c) = 3"
  shows "rectangular (map channels cs)"
  using assms by (cases cs) (auto simp add: rectangular_def)

lemma json_rows_eq:
  assumes "\<forall>row \<in> set rows. \<forall>v \<in> set row. num_val v = 0 \<or> num_val v = 1"
  shows "list_all2 (list_all2 num_eq) (map (map (\<lambda>v. IntV (np_int32 v))) rows) rows"
  using assms
  by (auto simp add: list_all2_map1 num_eq_def np_int32_value simp del: np_int32.simps
        intro!: list_all2_same [THEN iffD2] list.rel_refl_strong)

lemma json_rows_rectangular:
  "rectangular (map (map f) rows) = rectangular rows"
  by (cases rows) (auto simp add: rectangular_def)

lemma trunc_half: "trunc (1 / 2) = 0"
proof -
  have "\<lfloor>(1::rat) / 2\<rfloor> = 0" by (rule floor_unique) simp_all
  then show ?thesis by (simp add: trunc_def)
qed

lemma trunc_zero: "trunc 0 = 0"
  by (simp add: trunc_def)

text \<open>
  Claim C1, as amended: let \<open>m\<close> be a mapping the constructor returned, whose colours have
  three channels in 0..255 and whose one-hot table is absent, or is not empty and holds only
  the values 0 and 1 (as integers or as floats). Writing \<open>m\<close> with \<open>to_json\<close> and reading
  the file back with \<open>from_labels_json_file\<close> returns a mapping with the labels of \<open>m\<close>,
  with colours that have the channels of the colours of \<open>m\<close>, in the same order, and with a
  one-hot table whose entries are numerically equal to those of \<open>m\<close>. When the colours of
  \<open>m\<close> are lists, as in a mapping that was itself read from a file, the colours of the
  new mapping are equal to them.
\<close>

theorem json_round_trip:
  assumes "ColorLabels_init cs ohe ls = Inr m"
    and "\<forall>c \<in> set cs. length (channels c) = 3 \<and> (\<forall>x \<in> set (channels c). 0 \<le> x \<and> x \<le> 255)"
    and "ohe \<noteq> Some []"
    and "\<forall>row \<in> set (rows_of ohe). \<forall>v \<in> set row. num_val v = 0 \<or> num_val v = 1"
  shows "\<exists>m'. round_trip m path fs = Inr m'
           \<and> map channels (colors m') = map channels (colors m)
           \<and> ((\<forall>c \<in> set cs. \<not> is_tuple c) \<longrightarrow> colors m' = colors m)
           \<and> labels m' = labels m
           \<and> one_hot_eq (one_hot_encoding m') (one_hot_encoding m)"
proof -
  note F = init_fields [OF assms(1)]
  note V = init_valid [OF assms(1)]
  let ?cs' = "map ListColor (map channels cs)"
  have C: "map (\<lambda>c. map int32 (channels c)) cs = map channels cs"
    using assms(2) by (intro json_colors_same) simp
  have R: "rectangular (map channels cs)"
    using assms(2) by (intro json_colors_rectangular) simp
  have ch: "map channels ?cs' = map channels cs"
    by (simp add: comp_def)
  have "ListColor (channels c) = c" if "\<not> is_tuple c" for c
    using that by (cases c) simp_all
  then have cs': "(\<forall>c \<in> set cs. \<not> is_tuple c) \<longrightarrow> ?cs' = cs"
    by (simp add: map_idI)
  show ?thesis
  proof (cases ohe)
    case None
    have call: "round_trip m path fs = ColorLabels_init ?cs' None ls"
      using F None R by (simp add: round_trip_def to_json_def from_labels_json_file_def C)
    have "\<exists>m'. ColorLabels_init ?cs' None ls = Inr m'"
      using V None by (intro init_success) simp_all
    then obtain m' where i: "ColorLabels_init ?cs' None ls = Inr m'" ..
    note F' = init_fields [OF i]
    have "map channels (colors m') = map channels (colors m)"
      and "(\<forall>c \<in> set cs. \<not> is_tuple c) \<longrightarrow> colors m' = colors m"
      and "labels m' = labels m"
      and "one_hot_eq (one_hot_encoding m') (one_hot_encoding m)"
      using F F' None cs' ch by (simp_all add: one_hot_eq_def)
    with i call show ?thesis by simp
  next
    case (Some rows)
    with assms(3) have ne: "rows \<noteq> []" by simp
    let ?rows' = "map (map (\<lambda>v. IntV (np_int32 v))) rows"
    from V Some ne have len: "length rows = length cs" and rect: "rectangular rows"
      by simp_all
    have call: "round_trip m path fs = ColorLabels_init ?cs' (Some ?rows') ls"
      using F Some ne rect R
      by (simp add: round_trip_def to_json_def from_labels_json_file_def C del: np_int32.simps)
    have hd: "length (hd ?rows') = length (hd rows)"
      using ne by (simp add: hd_map)
    have "\<exists>m'. ColorLabels_init ?cs' (Some ?rows') ls = Inr m'"
    proof (rule init_success)
      show "truthy (Some ?rows') \<longrightarrow>
            length (rows_of (Some ?rows')) = length ?cs' \<and> rectangular (rows_of (Some ?rows'))"
        using len rect by (simp add: json_rows_rectangular del: np_int32.simps)
      show "truthy ls \<longrightarrow> length (rows_of ls) =
            (if truthy (Some ?rows') then length (hd (rows_of (Some ?rows'))) else length ?cs')"
        using V Some ne hd by (simp del: np_int32.simps)
    qed
    then obtain m' where i: "ColorLabels_init ?cs' (Some ?rows') ls = Inr m'" ..
    note F' = init_fields [OF i]
    have eq: "one_hot_eq (Some ?rows') (Some rows)"
      using json_rows_eq [of rows] assms(4) Some by (simp add: one_hot_eq_def)
    have "map channels (colors m') = map channels (colors m)"
      and "(\<forall>c \<in> set cs. \<not> is_tuple c) \<longrightarrow> colors m' = colors m"
      and "labels m' = labels m"
      and "one_hot_eq (one_hot_encoding m') (one_hot_encoding m)"
      using F F' Some cs' ch eq by (simp_all del: np_int32.simps)
    with i call show ?thesis by simp
  qed
qed

text \<open>
  A mapping built with tuple colours and a one-hot table that holds a float, written and
  read back; and the mapping that was read, written and read back once more.
\<close>

theorem json_round_trip_witness:
  "ColorLabels_init [TupleColor (0, 0, 0), TupleColor (255, 0, 0)] (Some [[IntV 0], [FloatV 1]])
     (Some [''a'']) = Inr \<lparr>colors = [TupleColor (0, 0, 0), TupleColor (255, 0, 0)], one_hot_encoding = Some [[IntV 0], [FloatV 1]], labels = Some [''a''], log_labels = Some [''background'', ''a'']\<rparr>
   \<and> round_trip \<lparr>colors = [TupleColor (0, 0, 0), TupleColor (255, 0, 0)], one_hot_encoding = Some [[IntV 0], [FloatV 1]], labels = Some [''a''], log_labels = Some [''background'', ''a'']\<rparr> ''labels.json'' Map.empty = Inr \<lparr>colors = [ListColor [0, 0, 0], ListColor [255, 0, 0]], one_hot_encoding = Some [[IntV 0], [IntV 1]], labels = Some [''a''], log_labels = Some [''background'', ''a'']\<rparr>
   \<and> map channels (colors \<lparr>colors = [ListColor [0, 0, 0], ListColor [255, 0, 0]], one_hot_encoding = Some [[IntV 0], [IntV 1]], labels = Some [''a''], log_labels = Some [''background'', ''a'']\<rparr>) = map channels (colors \<lparr>colors = [TupleColor (0, 0, 0), TupleColor (255, 0, 0)], one_hot_encoding = Some [[IntV 0], [FloatV 1]], labels = Some [''a''], log_labels = Some [''background'', ''a'']\<rparr>)
   \<and> labels \<lparr>colors = [ListColor [0, 0, 0], ListColor [255, 0, 0]], one_hot_encoding = Some [[IntV 0], [IntV 1]], labels = Some [''a''], log_labels = Some [''background'', ''a'']\<rparr> = labels \<lparr>colors = [TupleColor (0, 0, 0), TupleColor (255, 0, 0)], one_hot_encoding = Some [[IntV 0], [FloatV 1]], labels = Some [''a''], log_labels = Some [''background'', ''a'']\<rparr>
   \<and> one_hot_eq (one_hot_encoding \<lparr>colors = [ListColor [0, 0, 0], ListColor [255, 0, 0]], one_hot_encoding = Some [[IntV 0], [IntV 1]], labels = Some [''a''], log_labels = Some [''background'', ''a'']\<rparr>) (one_hot_encoding \<lparr>colors = [TupleColor (0, 0, 0), TupleColor (255, 0, 0)], one_hot_encoding = Some [[IntV 0], [FloatV 1]], labels = Some [''a''], log_labels = Some [''background'', ''a'']\<rparr>)
   \<and> ColorLabels_init [ListColor [0, 0, 0], ListColor [255, 0, 0]] (Some [[IntV 0], [IntV 1]])
     (Some [''a'']) = Inr \<lparr>colors = [ListColor [0, 0, 0], ListColor [255, 0, 0]], one_hot_encoding = Some [[IntV 0], [IntV 1]], labels = Some [''a''], log_labels = Some [''background'', ''a'']\<rparr>
   \<and> round_trip \<lparr>colors = [ListColor [0, 0, 0], ListColor [255, 0, 0]], one_hot_encoding = Some [[IntV 0], [IntV 1]], labels = Some [''a''], log_labels = Some [''background'', ''a'']\<rparr> ''labels.json'' Map.empty = Inr \<lparr>colors = [ListColor [0, 0, 0], ListColor [255, 0, 0]], one_hot_encoding = Some [[IntV 0], [IntV 1]], labels = Some [''a''], log_labels = Some [''background'', ''a'']\<rparr>
   \<and> (\<exists>m'. round_trip \<lparr>colors = [ListColor [0, 0, 0], ListColor [255, 0, 0]], one_hot_encoding = Some [[IntV 0], [IntV 1]], labels = Some [''a''], log_labels = Some [''background'', ''a'']\<rparr> ''labels.json'' Map.empty = Inr m'
         \<and> map channels (colors m') = map channels (colors \<lparr>colors = [ListColor [0, 0, 0], ListColor [255, 0, 0]], one_hot_encoding = Some [[IntV 0], [IntV 1]], labels = Some [''a''], log_labels = Some [''background'', ''a'']\<rparr>)
         \<and> colors m' = colors \<lparr>colors = [ListColor [0, 0, 0], ListColor [255, 0, 0]], one_hot_encoding = Some [[IntV 0], [IntV 1]], labels = Some [''a''], log_labels = Some [''background'', ''a'']\<rparr>
         \<and> labels m' = labels \<lparr>colors = [ListColor [0, 0, 0], ListColor [255, 0, 0]], one_hot_encoding = Some [[IntV 0], [IntV 1]], labels = Some [''a''], log_labels = Some [''background'', ''a'']\<rparr>
         \<and> one_hot_eq (one_hot_encoding m') (one_hot_encoding \<lparr>colors = [ListColor [0, 0, 0], ListColor [255, 0, 0]], one_hot_encoding = Some [[IntV 0], [IntV 1]], labels = Some [''a''], log_labels = Some [''background'', ''a'']\<rparr>))"
proof -
  let ?cs = "[TupleColor (0, 0, 0), TupleColor (255, 0, 0)]"
  let ?ls = "[ListColor [0, 0, 0], ListColor [255, 0, 0]]"
  let ?ohe = "Some [[IntV 0], [FloatV 1]]"
  let ?ohe' = "Some [[IntV 0], [IntV 1]]"
  have i: "ColorLabels_init ?cs ?ohe (Some [''a'']) = Inr \<lparr>colors = [TupleColor (0, 0, 0), TupleColor (255, 0, 0)], one_hot_encoding = Some [[IntV 0], [FloatV 1]], labels = Some [''a''], log_labels = Some [''background'', ''a'']\<rparr>"
    by (simp add: ColorLabels_init_def Let_def rectangular_def num_classes_def new_names_def
          empty_labels_indices_def)
  have c: "\<forall>c \<in> set ?cs. length (channels c) = 3 \<and> (\<forall>x \<in> set (channels c). 0 \<le> x \<and> x \<le> 255)"
    by simp
  have n: "?ohe \<noteq> Some []" by simp
  have v: "\<forall>row \<in> set (rows_of ?ohe). \<forall>v \<in> set row. num_val v = 0 \<or> num_val v = 1"
    by simp
  have ev: "round_trip \<lparr>colors = [TupleColor (0, 0, 0), TupleColor (255, 0, 0)], one_hot_encoding = Some [[IntV 0], [FloatV 1]], labels = Some [''a''], log_labels = Some [''background'', ''a'']\<rparr> ''labels.json'' Map.empty = Inr \<lparr>colors = [ListColor [0, 0, 0], ListColor [255, 0, 0]], one_hot_encoding = Some [[IntV 0], [IntV 1]], labels = Some [''a''], log_labels = Some [''background'', ''a'']\<rparr>"
    by (simp add: round_trip_def to_json_def from_labels_json_file_def ColorLabels_init_def
          Let_def rectangular_def num_classes_def new_names_def int32_def trunc_def
          empty_labels_indices_def)
  from json_round_trip [OF i c n v, of "''labels.json''" Map.empty] obtain m'
    where r: "round_trip \<lparr>colors = [TupleColor (0, 0, 0), TupleColor (255, 0, 0)], one_hot_encoding = Some [[IntV 0], [FloatV 1]], labels = Some [''a''], log_labels = Some [''background'', ''a'']\<rparr> ''labels.json'' Map.empty = Inr m'"
      and p: "map channels (colors m') = map channels (colors \<lparr>colors = [TupleColor (0, 0, 0), TupleColor (255, 0, 0)], one_hot_encoding = Some [[IntV 0], [FloatV 1]], labels = Some [''a''], log_labels = Some [''background'', ''a'']\<rparr>)"
        "labels m' = labels \<lparr>colors = [TupleColor (0, 0, 0), TupleColor (255, 0, 0)], one_hot_encoding = Some [[IntV 0], [FloatV 1]], labels = Some [''a''], log_labels = Some [''background'', ''a'']\<rparr>"
        "one_hot_eq (one_hot_encoding m') (one_hot_encoding \<lparr>colors = [TupleColor (0, 0, 0), TupleColor (255, 0, 0)], one_hot_encoding = Some [[IntV 0], [FloatV 1]], labels = Some [''a''], log_labels = Some [''background'', ''a'']\<rparr>)"
    by blast
  from r ev have "m' = \<lparr>colors = [ListColor [0, 0, 0], ListColor [255, 0, 0]], one_hot_encoding = Some [[IntV 0], [IntV 1]], labels = Some [''a''], log_labels = Some [''background'', ''a'']\<rparr>" by simp
  with p have p': "map channels (colors \<lparr>colors = [ListColor [0, 0, 0], ListColor [255, 0, 0]], one_hot_encoding = Some [[IntV 0], [IntV 1]], labels = Some [''a''], log_labels = Some [''background'', ''a'']\<rparr>) = map channels (colors \<lparr>colors = [TupleColor (0, 0, 0), TupleColor (255, 0, 0)], one_hot_encoding = Some [[IntV 0], [FloatV 1]], labels = Some [''a''], log_labels = Some [''background'', ''a'']\<rparr>)"
        "labels \<lparr>colors = [ListColor [0, 0, 0], ListColor [255, 0, 0]], one_hot_encoding = Some [[IntV 0], [IntV 1]], labels = Some [''a''], log_labels = Some [''background'', ''a'']\<rparr> = labels \<lparr>colors = [TupleColor (0, 0, 0), TupleColor (255, 0, 0)], one_hot_encoding = Some [[IntV 0], [FloatV 1]], labels = Some [''a''], log_labels = Some [''background'', ''a'']\<rparr>"
        "one_hot_eq (one_hot_encoding \<lparr>colors = [ListColor [0, 0, 0], ListColor [255, 0, 0]], one_hot_encoding = Some [[IntV 0], [IntV 1]], labels = Some [''a''], log_labels = Some [''background'', ''a'']\<rparr>) (one_hot_encoding \<lparr>colors = [TupleColor (0, 0, 0), TupleColor (255, 0, 0)], one_hot_encoding = Some [[IntV 0], [FloatV 1]], labels = Some [''a''], log_labels = Some [''background'', ''a'']\<rparr>)"
    by simp_all
  have i2: "ColorLabels_init ?ls ?ohe' (Some [''a'']) = Inr \<lparr>colors = [ListColor [0, 0, 0], ListColor [255, 0, 0]], one_hot_encoding = Some [[IntV 0], [IntV 1]], labels = Some [''a''], log_labels = Some [''background'', ''a'']\<rparr>"
    by (simp add: ColorLabels_init_def Let_def rectangular_def num_classes_def new_names_def
          empty_labels_indices_def)
  have c2: "\<forall>c \<in> set ?ls. length (channels c) = 3 \<and> (\<forall>x \<in> set (channels c). 0 \<le> x \<and> x \<le> 255)"
    by simp
  have n2: "?ohe' \<noteq> Some []" by simp
  have v2: "\<forall>row \<in> set (rows_of ?ohe'). \<forall>v \<in> set row. num_val v = 0 \<or> num_val v = 1"
    by simp
  have l2: "\<forall>c \<in> set ?ls. \<not> is_tuple c" by simp
  have ev2: "round_trip \<lparr>colors = [ListColor [0, 0, 0], ListColor [255, 0, 0]], one_hot_encoding = Some [[IntV 0], [IntV 1]], labels = Some [''a''], log_labels = Some [''background'', ''a'']\<rparr> ''labels.json'' Map.empty = Inr \<lparr>colors = [ListColor [0, 0, 0], ListColor [255, 0, 0]], one_hot_encoding = Some [[IntV 0], [IntV 1]], labels = Some [''a''], log_labels = Some [''background'', ''a'']\<rparr>"
    by (simp add: round_trip_def to_json_def from_labels_json_file_def ColorLabels_init_def
          Let_def rectangular_def num_classes_def new_names_def int32_def
          empty_labels_indices_def)
  from json_round_trip [OF i2 c2 n2 v2, of "''labels.json''" Map.empty] obtain m2
    where r2: "round_trip \<lparr>colors = [ListColor [0, 0, 0], ListColor [255, 0, 0]], one_hot_encoding = Some [[IntV 0], [IntV 1]], labels = Some [''a''], log_labels = Some [''background'', ''a'']\<rparr> ''labels.json'' Map.empty = Inr m2"
      and q: "map channels (colors m2) = map channels (colors \<lparr>colors = [ListColor [0, 0, 0], ListColor [255, 0, 0]], one_hot_encoding = Some [[IntV 0], [IntV 1]], labels = Some [''a''], log_labels = Some [''background'', ''a'']\<rparr>)"
        "(\<forall>c \<in> set ?ls. \<not> is_tuple c) \<longrightarrow> colors m2 = colors \<lparr>colors = [ListColor [0, 0, 0], ListColor [255, 0, 0]], one_hot_encoding = Some [[IntV 0], [IntV 1]], labels = Some [''a''], log_labels = Some [''background'', ''a'']\<rparr>"
        "labels m2 = labels \<lparr>colors = [ListColor [0, 0, 0], ListColor [255, 0, 0]], one_hot_encoding = Some [[IntV 0], [IntV 1]], labels = Some [''a''], log_labels = Some [''background'', ''a'']\<rparr>"
        "one_hot_eq (one_hot_encoding m2) (one_hot_encoding \<lparr>colors = [ListColor [0, 0, 0], ListColor [255, 0, 0]], one_hot_encoding = Some [[IntV 0], [IntV 1]], labels = Some [''a''], log_labels = Some [''background'', ''a'']\<rparr>)"
    by blast
  from q(2) l2 have q2: "colors m2 = colors \<lparr>colors = [ListColor [0, 0, 0], ListColor [255, 0, 0]], one_hot_encoding = Some [[IntV 0], [IntV 1]], labels = Some [''a''], log_labels = Some [''background'', ''a'']\<rparr>" by (rule mp)
  have ex: "\<exists>m'. round_trip \<lparr>colors = [ListColor [0, 0, 0], ListColor [255, 0, 0]], one_hot_encoding = Some [[IntV 0], [IntV 1]], labels = Some [''a''], log_labels = Some [''background'', ''a'']\<rparr> ''labels.json'' Map.empty = Inr m'
         \<and> map channels (colors m') = map channels (colors \<lparr>colors = [ListColor [0, 0, 0], ListColor [255, 0, 0]], one_hot_encoding = Some [[IntV 0], [IntV 1]], labels = Some [''a''], log_labels = Some [''background'', ''a'']\<rparr>)
         \<and> colors m' = colors \<lparr>colors = [ListColor [0, 0, 0], ListColor [255, 0, 0]], one_hot_encoding = Some [[IntV 0], [IntV 1]], labels = Some [''a''], log_labels = Some [''background'', ''a'']\<rparr>
         \<and> labels m' = labels \<lparr>colors = [ListColor [0, 0, 0], ListColor [255, 0, 0]], one_hot_encoding = Some [[IntV 0], [IntV 1]], labels = Some [''a''], log_labels = Some [''background'', ''a'']\<rparr>
         \<and> one_hot_eq (one_hot_encoding m') (one_hot_encoding \<lparr>colors = [ListColor [0, 0, 0], ListColor [255, 0, 0]], one_hot_encoding = Some [[IntV 0], [IntV 1]], labels = Some [''a''], log_labels = Some [''background'', ''a'']\<rparr>)"
    using r2 q(1) q2 q(3) q(4) by blast
  show ?thesis
    by (intro conjI i ev p' i2 ev2 ex)
qed

text \<open>
  The claim C1 as stated fails in three ways. A mapping with tuple colours comes back with
  list colours, which are not equal to the tuples. A fractional one-hot value is written with
  \<^verbatim>\<open>np.int32\<close>, so \<^verbatim>\<open>0.5\<close> is read back as \<^verbatim>\<open>0\<close>. A one-hot table that is the empty
  list is written as \<^verbatim>\<open>null\<close> and read back as \<^verbatim>\<open>None\<close>.
\<close>

theorem json_round_trip_counterexample:
  "ColorLabels_init [TupleColor (0, 0, 0), TupleColor (255, 0, 0)] None None =
     Inr \<lparr>colors = [TupleColor (0, 0, 0), TupleColor (255, 0, 0)], one_hot_encoding = None,
          labels = None, log_labels = None\<rparr>
   \<and> round_trip \<lparr>colors = [TupleColor (0, 0, 0), TupleColor (255, 0, 0)],
          one_hot_encoding = None, labels = None, log_labels = None\<rparr> ''labels.json'' Map.empty =
     Inr \<lparr>colors = [ListColor [0, 0, 0], ListColor [255, 0, 0]], one_hot_encoding = None,
          labels = None, log_labels = None\<rparr>
   \<and> [ListColor [0, 0, 0], ListColor [255, 0, 0]]
       \<noteq> [TupleColor (0, 0, 0), TupleColor (255, 0, 0)]
   \<and> ColorLabels_init [TupleColor (0, 0, 0), TupleColor (255, 0, 0)]
       (Some [[FloatV 0], [FloatV (1 / 2)]]) None =
     Inr \<lparr>colors = [TupleColor (0, 0, 0), TupleColor (255, 0, 0)],
          one_hot_encoding = Some [[FloatV 0], [FloatV (1 / 2)]],
          labels = None, log_labels = None\<rparr>
   \<and> round_trip \<lparr>colors = [TupleColor (0, 0, 0), TupleColor (255, 0, 0)],
          one_hot_encoding = Some [[FloatV 0], [FloatV (1 / 2)]],
          labels = None, log_labels = None\<rparr> ''labels.json'' Map.empty =
     Inr \<lparr>colors = [ListColor [0, 0, 0], ListColor [255, 0, 0]],
          one_hot_encoding = Some [[IntV 0], [IntV 0]],
          labels = None, log_labels = None\<rparr>
   \<and> \<not> one_hot_eq (Some [[IntV 0], [IntV 0]]) (Some [[FloatV 0], [FloatV (1 / 2)]])
   \<and> ColorLabels_init [TupleColor (0, 0, 0)] (Some []) None =
     Inr \<lparr>colors = [TupleColor (0, 0, 0)], one_hot_encoding = Some [], labels = None,
          log_labels = None\<rparr>
   \<and> round_trip \<lparr>colors = [TupleColor (0, 0, 0)], one_hot_encoding = Some [], labels = None,
          log_labels = None\<rparr> ''labels.json'' Map.empty =
     Inr \<lparr>colors = [ListColor [0, 0, 0]], one_hot_encoding = None, labels = None,
          log_labels = None\<rparr>
   \<and> \<not> one_hot_eq None (Some [])"
  by (simp add: round_trip_def to_json_def from_labels_json_file_def ColorLabels_init_def
        rectangular_def int32_def trunc_half trunc_zero one_hot_eq_def num_eq_def)


end
